theory Spec2Isabelle
  imports Complex_Main "HOL-Library.Log_Nat"
begin

section \<open>Conventions of the embedding\<close>

text \<open>
  The sources are C. Names are those of the sources; a leading underscore of a static
  function is dropped (\<^verbatim>\<open>_update_diff_pty\<close> is \<open>update_diff_pty\<close>).

  \<^descr>[Reals.] A \<^verbatim>\<open>cs_real_t\<close> (a \<^verbatim>\<open>double\<close>) is a \<^typ>\<open>real\<close>: rounding, infinities
  and NaN are outside the model, so a statement about sums, products and order is a
  statement of exact arithmetic. The property evaluators and the diffusion tensor
  updaters are embedded over an arbitrary number type \<open>'r\<close> of which only the
  operation symbols are used (no law of arithmetic is available for it); what is
  proved of them at type \<open>'r\<close> holds for every interpretation of \<open>+\<close>, \<open>*\<close>, \<open>-\<close>, \<open>/\<close>,
  \<open>>\<close> and \<open>sqrt\<close>, IEEE doubles included.
  The precipitation update is embedded a second time with a rounding function applied
  after every arithmetic operation (\<open>update_precipitation_vb_fl\<close>); with the rounding of
  IEEE binary64 it is the function as it runs on doubles, and what exact arithmetic
  promises for the sign of the precipitate is evaluated there.

  \<^descr>[Indices.] A local id (\<^verbatim>\<open>cs_lnum_t\<close>, \<^verbatim>\<open>int\<close> or \<^verbatim>\<open>short int\<close> used as an index or
  a count) is a \<^typ>\<open>nat\<close>; no claim depends on its width.

  \<^descr>[Arrays.] A C array is a pointer: the callee receives no length and checks no
  bound. An array is a total map from indices to values, a store \<open>a[i] = x\<close> is
  \<^term>\<open>a(i := x)\<close>, and the loop bounds of the source are the only bounds of the
  model. Distinct array arguments are distinct objects (no aliasing).

  \<^descr>[Pointers.] A pointer that the sources compare with \<^verbatim>\<open>NULL\<close>, or initialise to
  \<^verbatim>\<open>NULL\<close>, is an \<^typ>\<open>'a option\<close>. A failed \<^verbatim>\<open>assert\<close>, a call of \<^verbatim>\<open>bft_error\<close> and
  the dereference of a null pointer are values of the type \<open>error\<close>, returned as \<open>Inl\<close>.
  An array that a function reads in a loop is taken from its option before the loop: a
  null array is reported as \<open>NullDereference\<close> also when the loop visits no element, where
  the C code only copies the pointer.
\<close>

type_synonym 'r array = "nat \<Rightarrow> 'r"
type_synonym rarray = "real array"

datatype error = Fatal string | AssertionFailed | NullDereference

text \<open>
  Modelled from the spec: \<^verbatim>\<open>bft_error\<close> (bft_error.h) is not among the sources. Section 7
  of the specification: a precondition violation is fatal, an immediate abort with a
  descriptive message. The call yields the error carrying the message and nothing after
  it is executed. The message is the format string of the call, with \<^verbatim>\<open>__func__\<close>
  substituted.
\<close>

definition bft_error :: "string \<Rightarrow> error + 'a" where
  "bft_error msg = Inl (Fatal msg)"

text \<open>
  Modelled from the spec: the macros \<^verbatim>\<open>CS_MIN\<close> and \<^verbatim>\<open>CS_MAX\<close> (cs_defs.h) are not among
  the sources. The specification reads them as minimum and maximum; they are written
  here as the conditional expressions \<^verbatim>\<open>((a) < (b) ? (a) : (b))\<close> and
  \<^verbatim>\<open>((a) > (b) ? (a) : (b))\<close>.
\<close>

definition CS_MIN :: "'a::ord \<Rightarrow> 'a \<Rightarrow> 'a" where
  "CS_MIN a b = (if a < b then a else b)"

definition CS_MAX :: "'a::ord \<Rightarrow> 'a \<Rightarrow> 'a" where
  "CS_MAX a b = (if a > b then a else b)"

section \<open>Cell-wise divergence operator (cs_cdofb_navsto.h)\<close>

text \<open>\<^verbatim>\<open>cs_quant_t\<close>: measure and unit normal of a face.\<close>

record cs_quant =
  meas :: real
  unitv :: "nat \<Rightarrow> real"

text \<open>
  The fields of \<^verbatim>\<open>cs_cell_mesh_t\<close> read by the functions embedded here. \<^verbatim>\<open>f_sgn\<close> is an
  array of \<^verbatim>\<open>short int\<close>, converted to \<^verbatim>\<open>double\<close> in the product with the measure.
\<close>

record cs_cell_mesh =
  c_id :: nat
  vol_c :: real
  n_fc :: nat
  face :: "nat \<Rightarrow> cs_quant"
  f_sgn :: "nat \<Rightarrow> int"

text \<open>Body of the loop on cell faces: the three stores at \<^verbatim>\<open>div + 3*f\<close>.\<close>

definition divergence_face :: "cs_cell_mesh \<Rightarrow> nat \<Rightarrow> rarray \<Rightarrow> rarray" where
  "divergence_face cm f dv =
     (let pfq = face cm f;
          i_f = of_int (f_sgn cm f) * meas pfq
      in dv(3 * f := i_f * unitv pfq 0,
             3 * f + 1 := i_f * unitv pfq 1,
             3 * f + 2 := i_f * unitv pfq 2))"

definition cs_cdofb_navsto_divergence_vect :: "cs_cell_mesh \<Rightarrow> rarray \<Rightarrow> rarray" where
  "cs_cdofb_navsto_divergence_vect cm dv = fold (divergence_face cm) [0..<n_fc cm] dv"

section \<open>Data model of the groundwater tracer module (cs_gwf_tracer.c)\<close>

text \<open>
  \<^verbatim>\<open>cs_zone_t\<close>: a list of cells, implicit (\<^verbatim>\<open>elt_ids == NULL\<close>, the cells
  \<open>0 .. n_elts - 1\<close>) or explicit.
\<close>

record cs_zone =
  n_elts :: nat
  elt_ids :: "(nat \<Rightarrow> nat) option"

text \<open>The expression \<^verbatim>\<open>(z->elt_ids == NULL) ? i : z->elt_ids[i]\<close>.\<close>

definition zone_cell :: "cs_zone \<Rightarrow> nat \<Rightarrow> nat" where
  "zone_cell z i = (case elt_ids z of None \<Rightarrow> i | Some e \<Rightarrow> e i)"

text \<open>
  \<^verbatim>\<open>cs_adjacency_t\<close> in compressed row form: the entities adjacent to \<open>c\<close> are
  \<open>ids[j]\<close> for \<open>idx[c] \<le> j < idx[c+1]\<close>. For the cell to vertex adjacency \<open>c2v\<close>, such a
  \<open>j\<close> is the slot of the pair (cell, vertex).
\<close>

record cs_adjacency =
  idx :: "nat \<Rightarrow> nat"
  ids :: "nat \<Rightarrow> nat"

definition cell_slots :: "cs_adjacency \<Rightarrow> nat \<Rightarrow> nat list" where
  "cell_slots c2v c = [idx c2v c ..< idx c2v (c + 1)]"

text \<open>
  \<^verbatim>\<open>cs_cdo_connect_t\<close>: the cell to vertex adjacency and the flag
  \<^verbatim>\<open>interfaces[CS_CDO_CONNECT_VTX_SCAL] != NULL\<close> (the mesh is distributed and vertices
  are shared with other ranks).
\<close>

record cs_cdo_connect =
  c2v :: cs_adjacency
  vtx_interfaces :: bool

text \<open>\<^verbatim>\<open>cs_cdo_quantities_t\<close>.\<close>

record cs_cdo_quantities =
  n_cells :: nat
  n_vertices :: nat
  cell_vol :: rarray
  dcell_vol :: rarray

text \<open>
  The enumeration \<^verbatim>\<open>cs_param_space_scheme_t\<close> is declared outside the sources; the
  functions embedded here name two of its values and treat every other one alike.
\<close>

datatype cs_param_space_scheme =
  CS_SPACE_SCHEME_CDOVB | CS_SPACE_SCHEME_CDOVCB | CS_SPACE_SCHEME_OTHER nat

text \<open>\<^verbatim>\<open>cs_gwf_soil_t\<close>, the fields read here (\<open>id_s\<close> is the field \<^verbatim>\<open>id\<close>).\<close>

record 'r cs_gwf_soil =
  id_s :: nat
  zone_id :: nat
  bulk_density :: 'r

text \<open>
  What the functions obtain from global registries and libraries, none of which is among
  the sources: \<^verbatim>\<open>cs_gwf_get_n_soils\<close>, \<^verbatim>\<open>cs_gwf_soil_by_id\<close>, \<^verbatim>\<open>cs_gwf_soil_by_name\<close>
  (\<^verbatim>\<open>NULL\<close> when no soil has the name), \<^verbatim>\<open>cs_volume_zone_by_id\<close>, \<^verbatim>\<open>cs_gwf_get_cell2soil\<close>,
  \<^verbatim>\<open>cs_gwf_soil_get_saturated_moisture\<close>, the constant \<^verbatim>\<open>cs_math_zero_threshold\<close>, the
  function \<^verbatim>\<open>sqrt\<close> of the C library and \<^verbatim>\<open>cs_glob_n_ranks\<close>. They are parameters of
  the embedding.
\<close>

record 'r cs_glob =
  n_soils :: nat
  soil_by_id :: "nat \<Rightarrow> 'r cs_gwf_soil"
  soil_by_name :: "string \<Rightarrow> 'r cs_gwf_soil option"
  volume_zone_by_id :: "nat \<Rightarrow> cs_zone"
  cell2soil :: "nat \<Rightarrow> nat"
  saturated_moisture :: "nat \<Rightarrow> 'r"
  cs_math_zero_threshold :: 'r
  libm_sqrt :: "'r \<Rightarrow> 'r"
  cs_glob_n_ranks :: nat

text \<open>
  \<^verbatim>\<open>cs_gwf_tracer_context_t\<close>. The arrays indexed by soil are allocated by
  \<^verbatim>\<open>cs_gwf_tracer_init\<close> together with the context (\<^verbatim>\<open>conc_w_star\<close> under the
  precipitation flag that also guards every use of it); the other pointers start as
  \<^verbatim>\<open>NULL\<close>. A field of type \<^verbatim>\<open>cs_field_t *\<close> is represented by its array \<^verbatim>\<open>val\<close>.
\<close>

record 'r cs_gwf_tracer_context =
  rho_bulk :: "'r array"
  kd0 :: "'r array"
  rho_kd :: "'r array"
  alpha_l :: "'r array"
  alpha_t :: "'r array"
  wmd :: "'r array"
  reaction_rate :: "'r array"
  conc_w_star :: "'r array"
  conc_precip :: "'r array option"
  conc_satura :: "'r array option"
  l_saturation :: "'r array option"
  darcy_velocity_field :: "'r array option"
  precip_field :: "'r array option"

text \<open>
  \<^verbatim>\<open>cs_gwf_tracer_t\<close> (\<open>tr_context\<close> is the field \<^verbatim>\<open>context\<close>). The equation
  \<^verbatim>\<open>tracer->eq\<close> is represented by what the functions
  read from it: its space scheme (\<^verbatim>\<open>cs_equation_get_space_scheme\<close>, the field
  \<^verbatim>\<open>space_scheme\<close> of its parameters) and its arrays of values at vertices and at cells
  (\<^verbatim>\<open>cs_equation_get_vertex_values\<close>, \<^verbatim>\<open>cs_equation_get_cell_values\<close>). The property
  \<^verbatim>\<open>tracer->diffusivity\<close> is represented by its array \<^verbatim>\<open>val\<close>.
\<close>

record 'r cs_gwf_tracer =
  tr_context :: "'r cs_gwf_tracer_context option"
  diffusivity :: "'r array option"
  eq_space_scheme :: cs_param_space_scheme
  eq_vertex_values :: "'r array"
  eq_cell_values :: "'r array"

section \<open>Property evaluators\<close>

text \<open>
  The bulk evaluators fit \<^verbatim>\<open>cs_xdef_eval_t\<close>: \<open>n_elts\<close>, \<open>elt_ids\<close> (\<^verbatim>\<open>NULL\<close> or a list of
  cells), \<open>dense_output\<close>, the context and the array \<open>result\<close>; the unused arguments
  (mesh, connectivity, quantities, time) are dropped. The cell-wise evaluators fit
  \<^verbatim>\<open>cs_xdef_cell_eval_cw_t\<close>: of the cell mesh they read \<^verbatim>\<open>cm->c_id\<close> only, and they
  store one value, which is returned. The context is asserted to be non-null; the
  saturation \<^verbatim>\<open>tc->l_saturation\<close> is dereferenced without a check.
\<close>

definition get_time_pty4std_sat_tracer ::
  "'r::plus cs_glob \<Rightarrow> nat \<Rightarrow> (nat \<Rightarrow> nat) option \<Rightarrow> bool
     \<Rightarrow> 'r cs_gwf_tracer_context option \<Rightarrow> 'r array \<Rightarrow> error + 'r array" where
  "get_time_pty4std_sat_tracer g n elts dense_output ctx result =
     (case ctx of
        None \<Rightarrow> Inl AssertionFailed
      | Some tc \<Rightarrow>
          let c2s = cell2soil g in
          Inr (fold (\<lambda>i res.
                  let c_id = (case elts of None \<Rightarrow> i | Some e \<Rightarrow> e i);
                      id = (if dense_output then i else c_id);
                      soil_id = c2s c_id;
                      sat_moisture = saturated_moisture g soil_id
                  in res(id := sat_moisture + rho_kd tc soil_id))
               [0..<n] result))"

definition get_time_pty4std_sat_tracer_cw ::
  "'r::plus cs_glob \<Rightarrow> cs_cell_mesh \<Rightarrow> 'r cs_gwf_tracer_context option \<Rightarrow> error + 'r" where
  "get_time_pty4std_sat_tracer_cw g cm ctx =
     (let c2s = cell2soil g;
          soil_id = c2s (c_id cm);
          sat_moisture = saturated_moisture g soil_id
      in case ctx of
           None \<Rightarrow> Inl AssertionFailed
         | Some tc \<Rightarrow> Inr (sat_moisture + rho_kd tc soil_id))"

definition get_time_pty4std_tracer ::
  "'r::plus cs_glob \<Rightarrow> nat \<Rightarrow> (nat \<Rightarrow> nat) option \<Rightarrow> bool
     \<Rightarrow> 'r cs_gwf_tracer_context option \<Rightarrow> 'r array \<Rightarrow> error + 'r array" where
  "get_time_pty4std_tracer g n elts dense_output ctx result =
     (case ctx of
        None \<Rightarrow> Inl AssertionFailed
      | Some tc \<Rightarrow>
          (case l_saturation tc of
             None \<Rightarrow> Inl NullDereference
           | Some theta \<Rightarrow>
               let c2s = cell2soil g in
               (case elts of
                  None \<Rightarrow>
                    Inr (fold (\<lambda>i res. res(i := theta i + rho_kd tc (c2s i))) [0..<n] result)
                | Some e \<Rightarrow>
                    Inr (fold (\<lambda>i res.
                            let c_id = e i;
                                id = (if dense_output then i else c_id)
                            in res(id := theta c_id + rho_kd tc (c2s c_id)))
                         [0..<n] result))))"

definition get_time_pty4std_tracer_cw ::
  "'r::plus cs_glob \<Rightarrow> cs_cell_mesh \<Rightarrow> 'r cs_gwf_tracer_context option \<Rightarrow> error + 'r" where
  "get_time_pty4std_tracer_cw g cm ctx =
     (let c2s = cell2soil g
      in case ctx of
           None \<Rightarrow> Inl AssertionFailed
         | Some tc \<Rightarrow>
             (case l_saturation tc of
                None \<Rightarrow> Inl NullDereference
              | Some theta \<Rightarrow> Inr (theta (c_id cm) + rho_kd tc (c2s (c_id cm)))))"

definition get_reaction_pty4std_sat_tracer ::
  "'r::{plus,times} cs_glob \<Rightarrow> nat \<Rightarrow> (nat \<Rightarrow> nat) option \<Rightarrow> bool
     \<Rightarrow> 'r cs_gwf_tracer_context option \<Rightarrow> 'r array \<Rightarrow> error + 'r array" where
  "get_reaction_pty4std_sat_tracer g n elts dense_output ctx result =
     (case ctx of
        None \<Rightarrow> Inl AssertionFailed
      | Some tc \<Rightarrow>
          let c2s = cell2soil g in
          Inr (fold (\<lambda>i res.
                  let c_id = (case elts of None \<Rightarrow> i | Some e \<Rightarrow> e i);
                      id = (if dense_output then i else c_id);
                      s = c2s c_id;
                      sat_moisture = saturated_moisture g s
                  in res(id := (sat_moisture + rho_kd tc s) * reaction_rate tc s))
               [0..<n] result))"

definition get_reaction_pty4std_sat_tracer_cw ::
  "'r::{plus,times} cs_glob \<Rightarrow> cs_cell_mesh \<Rightarrow> 'r cs_gwf_tracer_context option \<Rightarrow> error + 'r" where
  "get_reaction_pty4std_sat_tracer_cw g cm ctx =
     (case ctx of
        None \<Rightarrow> Inl AssertionFailed
      | Some tc \<Rightarrow>
          let c2s = cell2soil g;
              s = c2s (c_id cm);
              sat_moisture = saturated_moisture g s
          in Inr ((sat_moisture + rho_kd tc s) * reaction_rate tc s))"

definition get_reaction_pty4std_tracer ::
  "'r::{plus,times} cs_glob \<Rightarrow> nat \<Rightarrow> (nat \<Rightarrow> nat) option \<Rightarrow> bool
     \<Rightarrow> 'r cs_gwf_tracer_context option \<Rightarrow> 'r array \<Rightarrow> error + 'r array" where
  "get_reaction_pty4std_tracer g n elts dense_output ctx result =
     (case ctx of
        None \<Rightarrow> Inl AssertionFailed
      | Some tc \<Rightarrow>
          (case l_saturation tc of
             None \<Rightarrow> Inl NullDereference
           | Some theta \<Rightarrow>
               let c2s = cell2soil g in
               (case elts of
                  None \<Rightarrow>
                    Inr (fold (\<lambda>i res.
                            let s = c2s i
                            in res(i := (theta i + rho_kd tc s) * reaction_rate tc s))
                         [0..<n] result)
                | Some e \<Rightarrow>
                    Inr (fold (\<lambda>i res.
                            let c_id = e i;
                                s = c2s c_id;
                                id = (if dense_output then i else c_id)
                            in res(id := (theta c_id + rho_kd tc s) * reaction_rate tc s))
                         [0..<n] result))))"

definition get_reaction_pty4std_tracer_cw ::
  "'r::{plus,times} cs_glob \<Rightarrow> cs_cell_mesh \<Rightarrow> 'r cs_gwf_tracer_context option \<Rightarrow> error + 'r" where
  "get_reaction_pty4std_tracer_cw g cm ctx =
     (case ctx of
        None \<Rightarrow> Inl AssertionFailed
      | Some tc \<Rightarrow>
          (case l_saturation tc of
             None \<Rightarrow> Inl NullDereference
           | Some theta \<Rightarrow>
               let c2s = cell2soil g;
                   s = c2s (c_id cm)
               in Inr ((theta (c_id cm) + rho_kd tc s) * reaction_rate tc s)))"

section \<open>Diffusion tensor updaters\<close>

text \<open>
  The loop on \<open>kj\<close> for one \<open>ki\<close>, preceded by the store of the diagonal entry. \<open>r\<close> is
  the array \<^verbatim>\<open>values\<close> and \<open>b\<close> the offset \<open>9*c_id\<close> of \<^verbatim>\<open>_r\<close> in it. The mirrored
  entry is read back from the array, as the source does.
\<close>

definition tensor_row ::
  "'r::{plus,times} \<Rightarrow> 'r \<Rightarrow> 'r array \<Rightarrow> 'r array \<Rightarrow> 'r array \<Rightarrow> nat \<Rightarrow> nat
     \<Rightarrow> 'r array \<Rightarrow> 'r array" where
  "tensor_row coef1 delta v2 dcv v b ki r =
     fold (\<lambda>kj r.
             let r1 = r(b + (3 * ki + kj) := dcv ki * v kj)
             in r1(b + (3 * kj + ki) := r1 (b + (3 * ki + kj))))
          [ki + 1..<3]
          (r(b + (3 * ki + ki) := coef1 + delta * v2 ki))"

text \<open>
  The body of the loop on the cells of a soil, the same text in both updaters but for
  the moisture \<open>theta_c\<close> in \<open>coef1\<close>: \<^verbatim>\<open>theta_s\<close> in the saturated one, \<^verbatim>\<open>theta[c_id]\<close>
  in the general one.
\<close>

definition update_diff_cell ::
  "'r::{zero,plus,minus,times,inverse,ord} cs_glob \<Rightarrow> 'r \<Rightarrow> 'r \<Rightarrow> 'r \<Rightarrow> 'r
     \<Rightarrow> 'r array \<Rightarrow> nat \<Rightarrow> 'r array \<Rightarrow> 'r array" where
  "update_diff_cell g wmd_s a_t a_l theta_c velocity c values =
     (let v = (\<lambda>k. velocity (3 * c + k));
          v2 = (\<lambda>k. v k * v k);
          vnorm = libm_sqrt g (v2 0 + v2 1 + v2 2);
          coef1 = wmd_s * theta_c + a_t * vnorm;
          delta = (if vnorm > cs_math_zero_threshold g then (a_l - a_t) / vnorm else 0);
          dcv = (\<lambda>k. delta * v k)
      in fold (tensor_row coef1 delta v2 dcv v (9 * c)) [0..<3] values)"

text \<open>The body of the loop on soils of \<^verbatim>\<open>_update_sat_diff_pty\<close>.\<close>

definition update_sat_diff_soil ::
  "'r::{zero,plus,minus,times,inverse,ord} cs_glob \<Rightarrow> 'r cs_gwf_tracer_context
     \<Rightarrow> 'r array \<Rightarrow> nat \<Rightarrow> 'r array \<Rightarrow> 'r array" where
  "update_sat_diff_soil g tc velocity soil_id values =
     (let soil = soil_by_id g soil_id;
          z = volume_zone_by_id g (zone_id soil);
          wmd_s = wmd tc soil_id;
          a_t = alpha_t tc soil_id;
          a_l = alpha_l tc soil_id;
          theta_s = saturated_moisture g soil_id
      in fold (\<lambda>i. update_diff_cell g wmd_s a_t a_l theta_s velocity (zone_cell z i))
              [0..<n_elts z] values)"

definition update_sat_diff_pty ::
  "'r::{zero,plus,minus,times,inverse,ord} cs_glob \<Rightarrow> 'r cs_gwf_tracer option
     \<Rightarrow> error + 'r cs_gwf_tracer" where
  "update_sat_diff_pty g tracer =
     (case tracer of
        None \<Rightarrow> Inl AssertionFailed
      | Some tr \<Rightarrow>
          (case diffusivity tr of
             None \<Rightarrow> Inr tr
           | Some values \<Rightarrow>
               (case tr_context tr of
                  None \<Rightarrow> Inl AssertionFailed
                | Some tc \<Rightarrow>
                    (case darcy_velocity_field tc of
                       None \<Rightarrow> Inl NullDereference
                     | Some velocity \<Rightarrow>
                         Inr (tr\<lparr>diffusivity :=
                                Some (fold (update_sat_diff_soil g tc velocity)
                                           [0..<n_soils g] values)\<rparr>)))))"

text \<open>The body of the loop on soils of \<^verbatim>\<open>_update_diff_pty\<close>.\<close>

definition update_diff_soil ::
  "'r::{zero,plus,minus,times,inverse,ord} cs_glob \<Rightarrow> 'r cs_gwf_tracer_context
     \<Rightarrow> 'r array \<Rightarrow> 'r array \<Rightarrow> nat \<Rightarrow> 'r array \<Rightarrow> 'r array" where
  "update_diff_soil g tc theta velocity soil_id values =
     (let soil = soil_by_id g soil_id;
          z = volume_zone_by_id g (zone_id soil);
          wmd_s = wmd tc soil_id;
          a_t = alpha_t tc soil_id;
          a_l = alpha_l tc soil_id
      in fold (\<lambda>i. let c = zone_cell z i
                    in update_diff_cell g wmd_s a_t a_l (theta c) velocity c)
              [0..<n_elts z] values)"

definition update_diff_pty ::
  "'r::{zero,plus,minus,times,inverse,ord} cs_glob \<Rightarrow> 'r cs_gwf_tracer option
     \<Rightarrow> error + 'r cs_gwf_tracer" where
  "update_diff_pty g tracer =
     (case tracer of
        None \<Rightarrow> Inl AssertionFailed
      | Some tr \<Rightarrow>
          (case diffusivity tr of
             None \<Rightarrow> Inr tr
           | Some values \<Rightarrow>
               (case tr_context tr of
                  None \<Rightarrow> Inl AssertionFailed
                | Some tc \<Rightarrow>
                    (case l_saturation tc of
                       None \<Rightarrow> Inl NullDereference
                     | Some theta \<Rightarrow>
                         (case darcy_velocity_field tc of
                            None \<Rightarrow> Inl NullDereference
                          | Some velocity \<Rightarrow>
                              Inr (tr\<lparr>diffusivity :=
                                     Some (fold (update_diff_soil g tc theta velocity)
                                                [0..<n_soils g] values)\<rparr>))))))"

section \<open>Precipitation and dissolution update\<close>

text \<open>
  Modelled from the spec: \<^verbatim>\<open>cs_interface_set_max\<close> (cs_interface.h) is not among the
  sources. Section 4.6 of the specification: the synchronisation across parallel
  partitions takes the maximum dissolved concentration at each shared vertex. The values
  that the other ranks hold for vertex \<open>v\<close> when the call is made are the list \<open>recv v\<close>
  (empty for a vertex that is not shared); they are an input of the embedding. The call
  treats the \<open>n\<close> first entries of the array.
\<close>

definition cs_interface_set_max :: "(nat \<Rightarrow> real list) \<Rightarrow> nat \<Rightarrow> rarray \<Rightarrow> rarray" where
  "cs_interface_set_max recv n var = (\<lambda>v. if v < n then fold max (recv v) (var v) else var v)"

text \<open>
  The body of the loop on cell vertices, for the slot \<open>j\<close> of a cell of saturation
  \<open>theta_c\<close> in a soil of bulk density \<open>rho\<close>. The state is the pair of the arrays \<open>c_w\<close>
  and \<open>c_p\<close>. In the real numbers \<open>1/0\<close> is \<open>0\<close> where C yields an infinity: the
  statements below that depend on the two quotients assume \<open>rho\<close> and \<open>theta_c\<close> positive.
\<close>

definition precip_slot ::
  "rarray \<Rightarrow> rarray \<Rightarrow> cs_adjacency \<Rightarrow> real \<Rightarrow> real \<Rightarrow> nat \<Rightarrow> rarray \<times> rarray
     \<Rightarrow> rarray \<times> rarray" where
  "precip_slot c_satura c_w_save c2v_adj rho theta_c j = (\<lambda>(c_w, c_p).
     let inv_rho = 1 / rho;
         inv_theta_c = 1 / theta_c;
         v_id = ids c2v_adj j;
         c_sat = c_satura v_id
     in if c_w_save v_id \<le> c_sat \<and> c_p j > 0 then
          let c_w_max = CS_MIN c_sat (c_w_save v_id + rho * inv_theta_c * c_p j);
              c_p1 = c_p(j := c_p j - theta_c * inv_rho * (c_w_max - c_w_save v_id))
          in (c_w(v_id := CS_MAX (c_w v_id) c_w_max), c_p1)
        else if c_w_save v_id > c_sat then
          (c_w(v_id := c_sat),
           c_p(j := c_p j + theta_c * inv_rho * (c_w_save v_id - c_sat)))
        else (c_w, c_p))"

text \<open>The body of the loop on the cells of a soil.\<close>

definition precip_cell ::
  "rarray \<Rightarrow> rarray \<Rightarrow> cs_adjacency \<Rightarrow> rarray \<Rightarrow> real \<Rightarrow> nat \<Rightarrow> rarray \<times> rarray
     \<Rightarrow> rarray \<times> rarray" where
  "precip_cell c_satura c_w_save c2v_adj theta rho c =
     fold (precip_slot c_satura c_w_save c2v_adj rho (theta c)) (cell_slots c2v_adj c)"

text \<open>The body of the loop on soils.\<close>

definition precip_soil ::
  "real cs_glob \<Rightarrow> real cs_gwf_tracer_context \<Rightarrow> rarray \<Rightarrow> rarray \<Rightarrow> cs_adjacency \<Rightarrow> rarray
     \<Rightarrow> nat \<Rightarrow> rarray \<times> rarray \<Rightarrow> rarray \<times> rarray" where
  "precip_soil g tc c_satura c_w_save c2v_adj theta soil_id =
     (let soil = soil_by_id g soil_id;
          z = volume_zone_by_id g (zone_id soil);
          rho = rho_bulk tc (id_s soil)
      in fold (\<lambda>i. precip_cell c_satura c_w_save c2v_adj theta rho (zone_cell z i))
              [0..<n_elts z])"

text \<open>Step 2 of \<^verbatim>\<open>_update_precipitation_vb\<close>: the loop on soils.\<close>

definition precip_soils ::
  "real cs_glob \<Rightarrow> real cs_gwf_tracer_context \<Rightarrow> rarray \<Rightarrow> rarray \<Rightarrow> cs_adjacency \<Rightarrow> rarray
     \<Rightarrow> rarray \<times> rarray \<Rightarrow> rarray \<times> rarray" where
  "precip_soils g tc c_satura c_w_save c2v_adj theta =
     fold (precip_soil g tc c_satura c_w_save c2v_adj theta) [0..<n_soils g]"

text \<open>Step 3: the value of the precipitate field in the cell \<open>c\<close>.\<close>

definition precip_field_cell ::
  "cs_cdo_quantities \<Rightarrow> cs_adjacency \<Rightarrow> rarray \<Rightarrow> nat \<Rightarrow> rarray \<Rightarrow> rarray" where
  "precip_field_cell quant c2v_adj c_p c field_val =
     (let f0 = field_val(c := 0);
          f1 = fold (\<lambda>j f. f(c := f c + dcell_vol quant j * c_p j)) (cell_slots c2v_adj c) f0
      in f1(c := f1 c / cell_vol quant c))"

text \<open>
  \<^verbatim>\<open>_update_precipitation_vb\<close>. The tracer, its context, the saturation and the
  precipitate field are dereferenced without a check; \<^verbatim>\<open>conc_satura\<close> and
  \<^verbatim>\<open>conc_precip\<close> are asserted to be set. \<open>c_w_save\<close> is the copy of \<open>c_w\<close> made on entry
  (of its \<open>n_vertices\<close> first entries, which are those that the vertex ids of \<open>c2v\<close>
  address), so that it is \<open>c_w\<close> itself as it is on entry.
\<close>

definition update_precipitation_vb ::
  "real cs_glob \<Rightarrow> cs_cdo_connect \<Rightarrow> cs_cdo_quantities \<Rightarrow> (nat \<Rightarrow> real list)
     \<Rightarrow> real cs_gwf_tracer option \<Rightarrow> error + real cs_gwf_tracer" where
  "update_precipitation_vb g connect quant recv tracer =
     (case tracer of
        None \<Rightarrow> Inl NullDereference
      | Some tr \<Rightarrow>
     (case tr_context tr of
        None \<Rightarrow> Inl NullDereference
      | Some tc \<Rightarrow>
     (case conc_satura tc of
        None \<Rightarrow> Inl AssertionFailed
      | Some c_satura \<Rightarrow>
     (case conc_precip tc of
        None \<Rightarrow> Inl AssertionFailed
      | Some c_p \<Rightarrow>
     (case l_saturation tc of
        None \<Rightarrow> Inl NullDereference
      | Some theta \<Rightarrow>
     (case precip_field tc of
        None \<Rightarrow> Inl NullDereference
      | Some field_val \<Rightarrow>
          let c_w = eq_vertex_values tr;
              c_w_save = c_w;
              (c_w1, c_p1) = precip_soils g tc c_satura c_w_save (c2v connect) theta (c_w, c_p);
              c_w2 = (if vtx_interfaces connect
                      then cs_interface_set_max recv (n_vertices quant) c_w1 else c_w1);
              field_val1 = fold (precip_field_cell quant (c2v connect) c_p1)
                                [0..<n_cells quant] field_val
          in Inr (tr\<lparr>eq_vertex_values := c_w2,
                      tr_context := Some (tc\<lparr>conc_precip := Some c_p1,
                                             precip_field := Some field_val1\<rparr>)\<rparr>)))))))"

section \<open>The precipitation update in double arithmetic\<close>

text \<open>
  A \<^verbatim>\<open>cs_real_t\<close> is a \<^verbatim>\<open>double\<close>, an IEEE 754 binary64 number, and every arithmetic
  operation of the C code yields the exact result rounded to the nearest double, ties to
  the even significand. A double other than zero is \<open>m * 2^(e - 52)\<close> with an integer \<open>m\<close>,
  \<open>2^52 \<le> |m| < 2^53\<close>. For a real \<open>x\<close> other than zero, \<open>double_exponent x\<close> is the
  exponent \<open>e\<close> with \<open>2^e \<le> |x| < 2^(e+1)\<close>, computed on integers, and \<open>double_round x\<close> is
  the multiple of \<open>2^(e - 52)\<close> nearest to \<open>x\<close>. The exponent is not bounded: overflow,
  subnormal numbers, infinities and NaN are outside the model, which is the arithmetic of
  doubles for operands and results of magnitude between \<open>2^-1022\<close> and \<open>2^1024\<close>, and zero.
  The sign of a zero is not kept (no operation of the update reads it).
\<close>

definition double_exponent :: "real \<Rightarrow> int" where
  "double_exponent x =
     (if 1 \<le> \<bar>x\<bar> then bitlen \<lfloor>\<bar>x\<bar>\<rfloor> - 1 else - bitlen (\<lceil>1 / \<bar>x\<bar>\<rceil> - 1))"

text \<open>The integer nearest to \<open>y\<close>, the even one of the two when \<open>y\<close> is half-way.\<close>

definition round_half_even :: "real \<Rightarrow> int" where
  "round_half_even y =
     (let f = \<lfloor>y\<rfloor>; d = y - of_int f
      in if d < 1 / 2 then f else if 1 / 2 < d then f + 1 else if even f then f else f + 1)"

definition double_round :: "real \<Rightarrow> real" where
  "double_round x =
     (if x = 0 then 0
      else let u = 2 powi (double_exponent x - 52)
           in of_int (round_half_even (x / u)) * u)"

text \<open>
  \<^verbatim>\<open>_update_precipitation_vb\<close> once more, definition by definition as in the previous
  section, with the rounding \<open>rnd\<close> applied to the result of every arithmetic operation,
  in the order in which C evaluates the expressions (\<^verbatim>\<open>a*b*c\<close> is \<^verbatim>\<open>(a*b)*c\<close>). Comparisons,
  \<^verbatim>\<open>CS_MIN\<close> and \<^verbatim>\<open>CS_MAX\<close> are exact. With the identity for \<open>rnd\<close> these are the
  definitions of the previous section; with \<open>double_round\<close> they are the update on
  doubles.
\<close>

definition precip_slot_fl ::
  "(real \<Rightarrow> real) \<Rightarrow> rarray \<Rightarrow> rarray \<Rightarrow> cs_adjacency \<Rightarrow> real \<Rightarrow> real \<Rightarrow> nat
     \<Rightarrow> rarray \<times> rarray \<Rightarrow> rarray \<times> rarray" where
  "precip_slot_fl rnd c_satura c_w_save c2v_adj rho theta_c j = (\<lambda>(c_w, c_p).
     let inv_rho = rnd (1 / rho);
         inv_theta_c = rnd (1 / theta_c);
         v_id = ids c2v_adj j;
         c_sat = c_satura v_id
     in if c_w_save v_id \<le> c_sat \<and> c_p j > 0 then
          let c_w_max = CS_MIN c_sat
                (rnd (c_w_save v_id + rnd (rnd (rho * inv_theta_c) * c_p j)));
              c_p1 = c_p(j := rnd (c_p j
                - rnd (rnd (theta_c * inv_rho) * rnd (c_w_max - c_w_save v_id))))
          in (c_w(v_id := CS_MAX (c_w v_id) c_w_max), c_p1)
        else if c_w_save v_id > c_sat then
          (c_w(v_id := c_sat),
           c_p(j := rnd (c_p j + rnd (rnd (theta_c * inv_rho) * rnd (c_w_save v_id - c_sat)))))
        else (c_w, c_p))"

definition precip_cell_fl ::
  "(real \<Rightarrow> real) \<Rightarrow> rarray \<Rightarrow> rarray \<Rightarrow> cs_adjacency \<Rightarrow> rarray \<Rightarrow> real \<Rightarrow> nat
     \<Rightarrow> rarray \<times> rarray \<Rightarrow> rarray \<times> rarray" where
  "precip_cell_fl rnd c_satura c_w_save c2v_adj theta rho c =
     fold (precip_slot_fl rnd c_satura c_w_save c2v_adj rho (theta c)) (cell_slots c2v_adj c)"

definition precip_soil_fl ::
  "(real \<Rightarrow> real) \<Rightarrow> real cs_glob \<Rightarrow> real cs_gwf_tracer_context \<Rightarrow> rarray \<Rightarrow> rarray
     \<Rightarrow> cs_adjacency \<Rightarrow> rarray \<Rightarrow> nat \<Rightarrow> rarray \<times> rarray \<Rightarrow> rarray \<times> rarray" where
  "precip_soil_fl rnd g tc c_satura c_w_save c2v_adj theta soil_id =
     (let soil = soil_by_id g soil_id;
          z = volume_zone_by_id g (zone_id soil);
          rho = rho_bulk tc (id_s soil)
      in fold (\<lambda>i. precip_cell_fl rnd c_satura c_w_save c2v_adj theta rho (zone_cell z i))
              [0..<n_elts z])"

definition precip_soils_fl ::
  "(real \<Rightarrow> real) \<Rightarrow> real cs_glob \<Rightarrow> real cs_gwf_tracer_context \<Rightarrow> rarray \<Rightarrow> rarray
     \<Rightarrow> cs_adjacency \<Rightarrow> rarray \<Rightarrow> rarray \<times> rarray \<Rightarrow> rarray \<times> rarray" where
  "precip_soils_fl rnd g tc c_satura c_w_save c2v_adj theta =
     fold (precip_soil_fl rnd g tc c_satura c_w_save c2v_adj theta) [0..<n_soils g]"

definition precip_field_cell_fl ::
  "(real \<Rightarrow> real) \<Rightarrow> cs_cdo_quantities \<Rightarrow> cs_adjacency \<Rightarrow> rarray \<Rightarrow> nat \<Rightarrow> rarray
     \<Rightarrow> rarray" where
  "precip_field_cell_fl rnd quant c2v_adj c_p c field_val =
     (let f0 = field_val(c := 0);
          f1 = fold (\<lambda>j f. f(c := rnd (f c + rnd (dcell_vol quant j * c_p j))))
                 (cell_slots c2v_adj c) f0
      in f1(c := rnd (f1 c / cell_vol quant c)))"

definition update_precipitation_vb_fl ::
  "(real \<Rightarrow> real) \<Rightarrow> real cs_glob \<Rightarrow> cs_cdo_connect \<Rightarrow> cs_cdo_quantities
     \<Rightarrow> (nat \<Rightarrow> real list) \<Rightarrow> real cs_gwf_tracer option \<Rightarrow> error + real cs_gwf_tracer" where
  "update_precipitation_vb_fl rnd g connect quant recv tracer =
     (case tracer of
        None \<Rightarrow> Inl NullDereference
      | Some tr \<Rightarrow>
     (case tr_context tr of
        None \<Rightarrow> Inl NullDereference
      | Some tc \<Rightarrow>
     (case conc_satura tc of
        None \<Rightarrow> Inl AssertionFailed
      | Some c_satura \<Rightarrow>
     (case conc_precip tc of
        None \<Rightarrow> Inl AssertionFailed
      | Some c_p \<Rightarrow>
     (case l_saturation tc of
        None \<Rightarrow> Inl NullDereference
      | Some theta \<Rightarrow>
     (case precip_field tc of
        None \<Rightarrow> Inl NullDereference
      | Some field_val \<Rightarrow>
          let c_w = eq_vertex_values tr;
              c_w_save = c_w;
              (c_w1, c_p1) =
                precip_soils_fl rnd g tc c_satura c_w_save (c2v connect) theta (c_w, c_p);
              c_w2 = (if vtx_interfaces connect
                      then cs_interface_set_max recv (n_vertices quant) c_w1 else c_w1);
              field_val1 = fold (precip_field_cell_fl rnd quant (c2v connect) c_p1)
                                [0..<n_cells quant] field_val
          in Inr (tr\<lparr>eq_vertex_values := c_w2,
                      tr_context := Some (tc\<lparr>conc_precip := Some c_p1,
                                             precip_field := Some field_val1\<rparr>)\<rparr>)))))))"

section \<open>Setup of the precipitation model, parameter setting and integration\<close>

text \<open>A loop whose body may abort: the first error ends the loop.\<close>

fun fold_err :: "('a \<Rightarrow> 's \<Rightarrow> error + 's) \<Rightarrow> 'a list \<Rightarrow> 's \<Rightarrow> error + 's" where
  "fold_err f [] s = Inr s"
| "fold_err f (x # xs) s = (case f x s of Inl e \<Rightarrow> Inl e | Inr s' \<Rightarrow> fold_err f xs s')"

text \<open>
  Modelled from the spec: \<^verbatim>\<open>cs_interface_set_min\<close> (cs_interface.h) is not among the
  sources. Section 5 of the specification: the initialisation of the saturation
  concentration is synchronised by a min-reduction. As for the max-reduction, \<open>recv v\<close> is
  the list of the values that the other ranks hold for the vertex \<open>v\<close>.
\<close>

definition cs_interface_set_min :: "(nat \<Rightarrow> real list) \<Rightarrow> nat \<Rightarrow> rarray \<Rightarrow> rarray" where
  "cs_interface_set_min recv n var = (\<lambda>v. if v < n then fold min (recv v) (var v) else var v)"

text \<open>
  The body of the loop on soils that builds \<^verbatim>\<open>conc_satura\<close>: soil 0 initialises every
  vertex, a later soil (whose zone is asserted to list its cells) lowers the vertices of
  its cells.
\<close>

definition satura_soil ::
  "real cs_glob \<Rightarrow> real cs_gwf_tracer_context \<Rightarrow> cs_adjacency \<Rightarrow> nat \<Rightarrow> nat \<Rightarrow> rarray
     \<Rightarrow> error + rarray" where
  "satura_soil g tc c2v_adj n_vtx soil_id satura =
     (let soil = soil_by_id g soil_id;
          c_sat = conc_w_star tc (id_s soil)
      in if soil_id = 0 then
           Inr (fold (\<lambda>v sat. sat(v := c_sat)) [0..<n_vtx] satura)
         else
           let z = volume_zone_by_id g (zone_id soil)
           in case elt_ids z of
                None \<Rightarrow> Inl AssertionFailed
              | Some e \<Rightarrow>
                  Inr (fold (\<lambda>i. let c = e i
                                in fold (\<lambda>j sat. let v_id = ids c2v_adj j
                                                in sat(v_id := CS_MIN (sat v_id) c_sat))
                                        (cell_slots c2v_adj c))
                            [0..<n_elts z] satura))"

text \<open>
  \<^verbatim>\<open>_add_precipitation\<close>. \<open>fresh_precip\<close> and \<open>fresh_satura\<close> are the contents of the two
  blocks returned by \<^verbatim>\<open>BFT_MALLOC\<close>, which the allocation leaves undetermined; the first
  block is then zeroed on its \<open>a_size\<close> entries. The tracer is dereferenced first, the
  switch on the space scheme comes next, and the context is dereferenced after it.
\<close>

definition add_precipitation ::
  "real cs_glob \<Rightarrow> cs_cdo_connect \<Rightarrow> cs_cdo_quantities \<Rightarrow> (nat \<Rightarrow> real list) \<Rightarrow> rarray \<Rightarrow> rarray
     \<Rightarrow> real cs_gwf_tracer option \<Rightarrow> error + real cs_gwf_tracer" where
  "add_precipitation g connect quant recv fresh_precip fresh_satura tracer =
     (case tracer of
        None \<Rightarrow> Inl NullDereference
      | Some tr \<Rightarrow>
     (let space_scheme = eq_space_scheme tr in
      case (case space_scheme of
              CS_SPACE_SCHEME_CDOVB \<Rightarrow> Inr (idx (c2v connect) (n_cells quant))
            | CS_SPACE_SCHEME_CDOVCB \<Rightarrow> Inr (idx (c2v connect) (n_cells quant) + n_cells quant)
            | CS_SPACE_SCHEME_OTHER k \<Rightarrow> bft_error ''_add_precipitation: Invalid space scheme.'')
      of
        Inl e \<Rightarrow> Inl e
      | Inr a_size \<Rightarrow>
     (case tr_context tr of
        None \<Rightarrow> Inl NullDereference
      | Some tc \<Rightarrow>
     (let tc1 = tc\<lparr>conc_precip := Some (\<lambda>j. if j < a_size then 0 else fresh_precip j)\<rparr> in
      case (if space_scheme = CS_SPACE_SCHEME_CDOVCB \<or> space_scheme = CS_SPACE_SCHEME_CDOVB
            then case fold_err (satura_soil g tc1 (c2v connect) (n_vertices quant))
                        [0..<n_soils g] fresh_satura
                 of Inl e \<Rightarrow> Inl e | Inr sat \<Rightarrow> Inr (tc1\<lparr>conc_satura := Some sat\<rparr>)
            else Inr tc1)
      of
        Inl e \<Rightarrow> Inl e
      | Inr tc2 \<Rightarrow>
          if vtx_interfaces connect then
            (case conc_satura tc2 of
               None \<Rightarrow> Inl NullDereference
             | Some sat \<Rightarrow>
                 Inr (tr\<lparr>tr_context := Some (tc2\<lparr>conc_satura :=
                        Some (cs_interface_set_min recv (n_vertices quant) sat)\<rparr>)\<rparr>))
          else Inr (tr\<lparr>tr_context := Some tc2\<rparr>)))))"

text \<open>The message \<^verbatim>\<open>_err_empty_tracer\<close>.\<close>

definition err_empty_tracer :: string where
  "err_empty_tracer =
     '' Stop execution. The structure related to a tracer is empty.\<newline> Please check your settings.\<newline>''"

text \<open>
  \<^verbatim>\<open>cs_gwf_set_main_tracer_param\<close>. The body of the loop on soils stores into the arrays
  of the context, which it dereferences.
\<close>

definition set_soil_param ::
  "nat \<Rightarrow> 'r::times \<Rightarrow> 'r \<Rightarrow> 'r \<Rightarrow> 'r \<Rightarrow> 'r \<Rightarrow> 'r \<Rightarrow> 'r cs_gwf_tracer \<Rightarrow> error + 'r cs_gwf_tracer" where
  "set_soil_param k density wmd_v al_v at_v distrib_coef rate tr =
     (case tr_context tr of
        None \<Rightarrow> Inl NullDereference
      | Some tc \<Rightarrow>
          Inr (tr\<lparr>tr_context := Some (tc\<lparr>
                 rho_bulk := (rho_bulk tc)(k := density),
                 kd0 := (kd0 tc)(k := distrib_coef),
                 rho_kd := (rho_kd tc)(k := density * distrib_coef),
                 alpha_l := (alpha_l tc)(k := al_v),
                 alpha_t := (alpha_t tc)(k := at_v),
                 wmd := (wmd tc)(k := wmd_v),
                 reaction_rate := (reaction_rate tc)(k := rate)\<rparr>)\<rparr>))"

definition cs_gwf_set_main_tracer_param ::
  "'r::times cs_glob \<Rightarrow> 'r cs_gwf_tracer option \<Rightarrow> string option \<Rightarrow> 'r \<Rightarrow> 'r \<Rightarrow> 'r \<Rightarrow> 'r \<Rightarrow> 'r
     \<Rightarrow> error + 'r cs_gwf_tracer" where
  "cs_gwf_set_main_tracer_param g tracer soil_name wmd_v al_v at_v distrib_coef rate =
     (case tracer of
        None \<Rightarrow> bft_error err_empty_tracer
      | Some tr \<Rightarrow>
          (case soil_name of
             None \<Rightarrow>
               fold_err (\<lambda>soil_id.
                           set_soil_param soil_id (bulk_density (soil_by_id g soil_id))
                             wmd_v al_v at_v distrib_coef rate)
                        [0..<n_soils g] tr
           | Some name \<Rightarrow>
               (case soil_by_name g name of
                  None \<Rightarrow>
                    bft_error ('' Soil '' @ name @
                      '' not found among the predefined soils.\<newline> Please check your settings.'')
                | Some soil \<Rightarrow>
                    set_soil_param (id_s soil) (bulk_density soil)
                      wmd_v al_v at_v distrib_coef rate tr)))"

text \<open>
  \<^verbatim>\<open>cs_gwf_tracer_integrate\<close>. The two loops on the cells of the zone come first, for
  the vertex-based and for the vertex+cell-based scheme. \<^verbatim>\<open>cs_parall_sum\<close> is not among
  the sources: \<open>others\<close> is the list of the values contributed by the other ranks.
\<close>

definition zone_integral_vb ::
  "real cs_glob \<Rightarrow> cs_adjacency \<Rightarrow> cs_cdo_quantities \<Rightarrow> real cs_gwf_tracer_context \<Rightarrow> rarray
     \<Rightarrow> cs_zone \<Rightarrow> rarray \<Rightarrow> real" where
  "zone_integral_vb g c2v_adj cdoq tc moisture_val z v_vals =
     fold (\<lambda>i int_value.
             let c = zone_cell z i;
                 cell_int = fold (\<lambda>j acc. acc + dcell_vol cdoq j * v_vals (ids c2v_adj j))
                                 (cell_slots c2v_adj c) 0
             in int_value + (moisture_val c + rho_kd tc (cell2soil g c)) * cell_int)
          [0..<n_elts z] 0"

definition zone_integral_vcb ::
  "real cs_glob \<Rightarrow> cs_adjacency \<Rightarrow> cs_cdo_quantities \<Rightarrow> real cs_gwf_tracer_context \<Rightarrow> rarray
     \<Rightarrow> cs_zone \<Rightarrow> rarray \<Rightarrow> rarray \<Rightarrow> real" where
  "zone_integral_vcb g c2v_adj cdoq tc moisture_val z v_vals c_vals =
     fold (\<lambda>i int_value.
             let c = zone_cell z i;
                 cell_int = fold (\<lambda>j acc. acc + 0.75 * dcell_vol cdoq j * v_vals (ids c2v_adj j))
                                 (cell_slots c2v_adj c) (0.25 * cell_vol cdoq c * c_vals c)
             in int_value + (moisture_val c + rho_kd tc (cell2soil g c)) * cell_int)
          [0..<n_elts z] 0"

definition cs_gwf_tracer_integrate ::
  "real cs_glob \<Rightarrow> cs_cdo_connect \<Rightarrow> cs_cdo_quantities \<Rightarrow> real list \<Rightarrow> real cs_gwf_tracer option
     \<Rightarrow> cs_zone \<Rightarrow> error + real" where
  "cs_gwf_tracer_integrate g connect cdoq others tracer z =
     (case tracer of
        None \<Rightarrow> Inl AssertionFailed
      | Some tr \<Rightarrow>
     (case tr_context tr of
        None \<Rightarrow> Inl NullDereference
      | Some tc \<Rightarrow>
     (case l_saturation tc of
        None \<Rightarrow>
          bft_error ('' cs_gwf_tracer_integrate: '' @ [CHR 0x22] @ ''moisture_content''
                       @ [CHR 0x22] @ '' not defined'')
      | Some moisture_val \<Rightarrow>
     (case (case eq_space_scheme tr of
              CS_SPACE_SCHEME_CDOVB \<Rightarrow>
                Inr (zone_integral_vb g (c2v connect) cdoq tc moisture_val z
                       (eq_vertex_values tr))
            | CS_SPACE_SCHEME_CDOVCB \<Rightarrow>
                Inr (zone_integral_vcb g (c2v connect) cdoq tc moisture_val z
                       (eq_vertex_values tr) (eq_cell_values tr))
            | CS_SPACE_SCHEME_OTHER k \<Rightarrow>
                bft_error '' cs_gwf_tracer_integrate: Invalid space scheme'')
      of
        Inl e \<Rightarrow> Inl e
      | Inr int_value \<Rightarrow>
          Inr (if cs_glob_n_ranks g > 1 then int_value + sum_list others else int_value)))))"

section \<open>Auxiliary definitions for the statements\<close>

text \<open>
  The value stored at row \<open>ki\<close>, column \<open>kj\<close> of the block of a cell, in the order in
  which the source multiplies: the entry above the diagonal is \<open>dcv[ki]*v[kj]\<close> with
  \<open>ki < kj\<close>, and the entry below the diagonal is a copy of it.
\<close>

definition tensor_block :: "'r::{plus,times} \<Rightarrow> 'r \<Rightarrow> 'r array \<Rightarrow> nat \<Rightarrow> nat \<Rightarrow> 'r" where
  "tensor_block coef1 delta v ki kj =
     (if ki = kj then coef1 + delta * (v ki * v ki)
      else if ki < kj then delta * v ki * v kj
      else delta * v kj * v ki)"

text \<open>The block computed for cell \<open>c\<close> from the parameters of a soil.\<close>

definition cell_tensor ::
  "'r::{zero,plus,minus,times,inverse,ord} cs_glob \<Rightarrow> 'r \<Rightarrow> 'r \<Rightarrow> 'r \<Rightarrow> 'r
     \<Rightarrow> 'r array \<Rightarrow> nat \<Rightarrow> nat \<Rightarrow> nat \<Rightarrow> 'r" where
  "cell_tensor g wmd_s a_t a_l theta_c velocity c =
     (let v = (\<lambda>k. velocity (3 * c + k));
          vnorm = libm_sqrt g (v 0 * v 0 + v 1 * v 1 + v 2 * v 2)
      in tensor_block (wmd_s * theta_c + a_t * vnorm)
           (if vnorm > cs_math_zero_threshold g then (a_l - a_t) / vnorm else 0) v)"

text \<open>The block of cell \<open>c\<close> in the array \<open>T\<close> is symmetric, entry for entry.\<close>

definition sym_block :: "'r array \<Rightarrow> nat \<Rightarrow> bool" where
  "sym_block T c = (\<forall>ki<3. \<forall>kj<3. T (9 * c + 3 * ki + kj) = T (9 * c + 3 * kj + ki))"

text \<open>The zone of a soil, and the cells that the loop on the zone of a soil visits.\<close>

definition soil_zone :: "'r cs_glob \<Rightarrow> nat \<Rightarrow> cs_zone" where
  "soil_zone g soil_id = volume_zone_by_id g (zone_id (soil_by_id g soil_id))"

definition cell_in_soil :: "'r cs_glob \<Rightarrow> nat \<Rightarrow> nat \<Rightarrow> bool" where
  "cell_in_soil g soil_id c = (\<exists>i<n_elts (soil_zone g soil_id). zone_cell (soil_zone g soil_id) i = c)"

text \<open>The block of cell \<open>c\<close> in the array \<open>T\<close> holds the entries \<open>X\<close>.\<close>

definition block_is :: "'r array \<Rightarrow> nat \<Rightarrow> (nat \<Rightarrow> nat \<Rightarrow> 'r) \<Rightarrow> bool" where
  "block_is T c X = (\<forall>ki<3. \<forall>kj<3. T (9 * c + 3 * ki + kj) = X ki kj)"

text \<open>
  The dispersion tensor in the words of the specification (section 4.5): the diagonal
  terms are \<open>wmd*theta + alpha_t*|v| + delta*v_i^2\<close>, the off-diagonal terms are
  \<open>delta*v_i*v_j\<close>, where \<open>delta = (alpha_l - alpha_t)/|v|\<close> if \<open>|v|\<close> exceeds the zero
  threshold and \<open>delta = 0\<close> otherwise.
\<close>

definition vnorm3 :: "real array \<Rightarrow> real" where
  "vnorm3 v = sqrt ((v 0)\<^sup>2 + (v 1)\<^sup>2 + (v 2)\<^sup>2)"

definition dispersion_tensor_spec ::
  "real \<Rightarrow> real \<Rightarrow> real \<Rightarrow> real \<Rightarrow> real \<Rightarrow> real array \<Rightarrow> nat \<Rightarrow> nat \<Rightarrow> real" where
  "dispersion_tensor_spec wmd_s a_t a_l theta thr v i j =
     (let delta = (if vnorm3 v > thr then (a_l - a_t) / vnorm3 v else 0)
      in if i = j then wmd_s * theta + a_t * vnorm3 v + delta * (v i)\<^sup>2
         else delta * v i * v j)"

text \<open>
  For the bulk evaluators: the cell treated at position \<open>i\<close> of the loop, the index of
  \<open>result\<close> written for it, and what it means that the array returned by a bulk
  evaluator holds at index \<open>p\<close> the value returned by a cell-wise evaluator.
\<close>

definition elt_cell :: "(nat \<Rightarrow> nat) option \<Rightarrow> nat \<Rightarrow> nat" where
  "elt_cell elts i = (case elts of None \<Rightarrow> i | Some e \<Rightarrow> e i)"

definition out_index :: "(nat \<Rightarrow> nat) option \<Rightarrow> bool \<Rightarrow> nat \<Rightarrow> nat" where
  "out_index elts dense_output i = (if dense_output then i else elt_cell elts i)"

definition agree :: "error + 'r array \<Rightarrow> error + 'r \<Rightarrow> nat \<Rightarrow> bool" where
  "agree bulk cw p = (\<exists>res x. bulk = Inr res \<and> cw = Inr x \<and> res p = x)"

text \<open>
  The visits of the three nested loops of step 2 of \<^verbatim>\<open>_update_precipitation_vb\<close>, in
  the order of the loops: the soil, the cell and the slot of each execution of the body
  of the innermost loop; and that body as a function of the visit.
\<close>

definition slot_visits :: "'r cs_glob \<Rightarrow> cs_adjacency \<Rightarrow> (nat \<times> nat \<times> nat) list" where
  "slot_visits g c2v_adj =
     concat (map (\<lambda>s.
       concat (map (\<lambda>i. map (\<lambda>j. (s, zone_cell (soil_zone g s) i, j))
                            (cell_slots c2v_adj (zone_cell (soil_zone g s) i)))
                   [0..<n_elts (soil_zone g s)]))
       [0..<n_soils g])"

definition precip_visit ::
  "real cs_glob \<Rightarrow> real cs_gwf_tracer_context \<Rightarrow> rarray \<Rightarrow> rarray \<Rightarrow> cs_adjacency \<Rightarrow> rarray
     \<Rightarrow> nat \<times> nat \<times> nat \<Rightarrow> rarray \<times> rarray \<Rightarrow> rarray \<times> rarray" where
  "precip_visit g tc c_satura c_w_save c2v_adj theta = (\<lambda>(s, c, j).
     precip_slot c_satura c_w_save c2v_adj (rho_bulk tc (id_s (soil_by_id g s))) (theta c) j)"

text \<open>
  The precondition of the precipitation claims on the medium: the bulk density of every
  soil and the saturation of every cell of its zone are positive.
\<close>

definition medium_positive ::
  "real cs_glob \<Rightarrow> real cs_gwf_tracer_context \<Rightarrow> rarray \<Rightarrow> bool" where
  "medium_positive g tc theta =
     (\<forall>s<n_soils g. 0 < rho_bulk tc (id_s (soil_by_id g s))
        \<and> (\<forall>c. cell_in_soil g s c \<longrightarrow> 0 < theta c))"

text \<open>
  The soil \<open>s\<close> owns a cell incident to the vertex \<open>v\<close>: the zone of the soil has a cell of
  which a slot is a slot of \<open>v\<close>. The vertex \<open>v\<close> is visited when some soil owns a cell
  incident to it (every vertex of a mesh is, since every vertex belongs to a cell and the
  soils partition the cells).
\<close>

definition soil_owns :: "'r cs_glob \<Rightarrow> cs_adjacency \<Rightarrow> nat \<Rightarrow> nat \<Rightarrow> bool" where
  "soil_owns g c2v_adj s v =
     (\<exists>c. cell_in_soil g s c
        \<and> (\<exists>j. idx c2v_adj c \<le> j \<and> j < idx c2v_adj (c + 1) \<and> ids c2v_adj j = v))"

definition vertex_visited :: "'r cs_glob \<Rightarrow> cs_adjacency \<Rightarrow> nat \<Rightarrow> bool" where
  "vertex_visited g c2v_adj v = (\<exists>s<n_soils g. soil_owns g c2v_adj s v)"

text \<open>The array \<^verbatim>\<open>conc_precip\<close> of a tracer.\<close>

definition tracer_c_p :: "'r cs_gwf_tracer \<Rightarrow> 'r array option" where
  "tracer_c_p tr = (case tr_context tr of None \<Rightarrow> None | Some tc \<Rightarrow> conc_precip tc)"







text \<open>
  The precipitate concentration of the slot \<open>j\<close> in the result of an update, when the
  update returns.
\<close>

definition conc_precip_after :: "error + 'r cs_gwf_tracer \<Rightarrow> nat \<Rightarrow> 'r option" where
  "conc_precip_after r j =
     (case r of Inl e \<Rightarrow> None | Inr tr' \<Rightarrow> map_option (\<lambda>c_p. c_p j) (tracer_c_p tr'))"

section \<open>Concrete inputs\<close>

text \<open>A unit cube: faces 2m and 2m+1 are normal to axis m, with opposite signs.\<close>

definition unit_cube :: cs_cell_mesh where
  "unit_cube = \<lparr> c_id = 0, vol_c = 1, n_fc = 6,
     face = (\<lambda>f. \<lparr> meas = 1, unitv = (\<lambda>k. if k = f div 2 then 1 else 0) \<rparr>),
     f_sgn = (\<lambda>f. if even f then - 1 else 1) \<rparr>"


text \<open>
  A mesh of two cells in a row, cell 0 on the vertices 0 and 1, cell 1 on the vertices 1
  and 2, so that vertex 1 has two slots, 1 and 2. Soil \<open>s\<close> is the cell \<open>s\<close>.
\<close>

definition ex_c2v :: cs_adjacency where
  "ex_c2v = \<lparr> idx = (\<lambda>c. 2 * c), ids = (\<lambda>j. (j + 1) div 2) \<rparr>"

definition ex_glob :: "real cs_glob" where
  "ex_glob = \<lparr> n_soils = 2,
     soil_by_id = (\<lambda>s. \<lparr> id_s = s, zone_id = s, bulk_density = (if s = 0 then 1 else 2) \<rparr>),
     soil_by_name = (\<lambda>n. None),
     volume_zone_by_id = (\<lambda>z. \<lparr> n_elts = 1, elt_ids = Some (\<lambda>i. z) \<rparr>),
     cell2soil = (\<lambda>c. c),
     saturated_moisture = (\<lambda>s. 1 / 2),
     cs_math_zero_threshold = 1 / 10 ^ 38,
     libm_sqrt = sqrt,
     cs_glob_n_ranks = 1 \<rparr>"

text \<open>
  The Darcy velocity is \<open>(3, 4, 0)\<close> in cell 0 and zero in cell 1. The dissolved
  concentration is zero at every vertex, below the saturation concentration \<open>10\<close>, and
  the two slots of vertex 1 hold precipitate, \<open>1\<close> in slot 1 (cell 0) and \<open>2\<close> in slot 2
  (cell 1).
\<close>

definition ex_velocity :: rarray where
  "ex_velocity = (\<lambda>p. if p = 0 then 3 else if p = 1 then 4 else 0)"

definition ex_theta :: rarray where
  "ex_theta = (\<lambda>c. 1 / 2)"

definition ex_c_w :: rarray where
  "ex_c_w = (\<lambda>v. 0)"

definition ex_c_sat :: rarray where
  "ex_c_sat = (\<lambda>v. 10)"

definition ex_c_p :: rarray where
  "ex_c_p = (\<lambda>j. if j = 1 then 1 else if j = 2 then 2 else 0)"

definition ex_zero :: rarray where
  "ex_zero = (\<lambda>p. 0)"

definition ex_tc :: "real cs_gwf_tracer_context" where
  "ex_tc = \<lparr> rho_bulk = (\<lambda>s. if s = 0 then 1 else 2),
     kd0 = (\<lambda>s. 0), rho_kd = (\<lambda>s. 0),
     alpha_l = (\<lambda>s. 2), alpha_t = (\<lambda>s. 1), wmd = (\<lambda>s. 1), reaction_rate = (\<lambda>s. 3),
     conc_w_star = (\<lambda>s. if s = 0 then 10 else 8),
     conc_precip = Some ex_c_p,
     conc_satura = Some ex_c_sat,
     l_saturation = Some ex_theta,
     darcy_velocity_field = Some ex_velocity,
     precip_field = Some ex_zero \<rparr>"

definition ex_tracer :: "real cs_gwf_tracer" where
  "ex_tracer = \<lparr> tr_context = Some ex_tc, diffusivity = Some ex_zero,
     eq_space_scheme = CS_SPACE_SCHEME_CDOVB,
     eq_vertex_values = ex_c_w, eq_cell_values = ex_zero \<rparr>"

text \<open>A cell mesh for cell 1.\<close>

definition ex_cell_mesh :: cs_cell_mesh where
  "ex_cell_mesh = unit_cube\<lparr>c_id := 1\<rparr>"

text \<open>Connectivity and quantities of the two-cell mesh, on one rank.\<close>

definition ex_connect :: cs_cdo_connect where
  "ex_connect = \<lparr> c2v = ex_c2v, vtx_interfaces = False \<rparr>"

definition ex_quant :: cs_cdo_quantities where
  "ex_quant = \<lparr> n_cells = 2, n_vertices = 3, cell_vol = (\<lambda>c. 1), dcell_vol = (\<lambda>j. 1 / 2) \<rparr>"

definition ex_recv :: "nat \<Rightarrow> real list" where
  "ex_recv = (\<lambda>v. [])"

text \<open>The same tracer with every vertex above saturation on entry.\<close>

definition ex_c_w_hi :: rarray where
  "ex_c_w_hi = (\<lambda>v. 12)"

definition ex_tracer_hi :: "real cs_gwf_tracer" where
  "ex_tracer_hi = ex_tracer\<lparr>eq_vertex_values := ex_c_w_hi\<rparr>"


text \<open>
  A tracer on the same mesh whose values are doubles: the saturation of every cell is the
  double nearest to \<open>0.3\<close> (\<open>5404319552844595 * 2^-54\<close>), the bulk density of every soil is
  \<open>1\<close>, and the slot 1 holds the precipitate \<open>0.875\<close>. The dissolved concentration is zero
  and the saturation concentration \<open>10\<close>, as above.
\<close>

definition ex_theta_fl :: rarray where
  "ex_theta_fl = (\<lambda>c. 5404319552844595 / 18014398509481984)"

definition ex_c_p_fl :: rarray where
  "ex_c_p_fl = (\<lambda>j. if j = 1 then 7 / 8 else 0)"

definition ex_tc_fl :: "real cs_gwf_tracer_context" where
  "ex_tc_fl = ex_tc\<lparr>rho_bulk := (\<lambda>s. 1), conc_precip := Some ex_c_p_fl,
     l_saturation := Some ex_theta_fl\<rparr>"

definition ex_tracer_fl :: "real cs_gwf_tracer" where
  "ex_tracer_fl = ex_tracer\<lparr>tr_context := Some ex_tc_fl\<rparr>"

text \<open>
  A tracer whose equation has another space scheme, a tracer whose saturation is not set,
  and the zone of all the cells.
\<close>

definition ex_tracer_other :: "real cs_gwf_tracer" where
  "ex_tracer_other = ex_tracer\<lparr>eq_space_scheme := CS_SPACE_SCHEME_OTHER 0\<rparr>"

definition ex_tc_dry :: "real cs_gwf_tracer_context" where
  "ex_tc_dry = ex_tc\<lparr>l_saturation := None\<rparr>"

definition ex_tracer_dry :: "real cs_gwf_tracer" where
  "ex_tracer_dry = ex_tracer\<lparr>tr_context := Some ex_tc_dry\<rparr>"

definition ex_zone :: cs_zone where
  "ex_zone = \<lparr> n_elts = 2, elt_ids = None \<rparr>"

section \<open>Loops as folds\<close>

lemma fold_establish_from:
  assumes "xs = pre @ x # post"
    and "\<And>s. Q (f x s)"
    and "\<And>y s. y \<in> set post \<Longrightarrow> Q s \<Longrightarrow> Q (f y s)"
  shows "Q (fold f xs s)"
proof -
  have "fold f xs s = fold f post (f x (fold f pre s))"
    using assms(1) by simp
  moreover have "Q (fold f post (f x (fold f pre s)))"
    by (rule fold_invariant [where Q = "\<lambda>y. y \<in> set post"]) (auto intro: assms(2,3))
  ultimately show ?thesis by simp
qed

lemma fold_establish:
  assumes "x \<in> set xs"
    and "\<And>s. Q (f x s)"
    and "\<And>y s. y \<in> set xs \<Longrightarrow> Q s \<Longrightarrow> Q (f y s)"
  shows "Q (fold f xs s)"
proof -
  from assms(1) obtain pre post where xs: "xs = pre @ x # post"
    by (auto dest: split_list)
  show ?thesis
    by (rule fold_establish_from [OF xs]) (auto simp: xs intro: assms(2,3))
qed

lemma upt_split: "s < n \<Longrightarrow> [0..<n] = [0..<s] @ s # [Suc s..<n]"
proof -
  assume "s < n"
  then have "[0..<n] = [0..<s] @ [s..<n]"
    using upt_add_eq_append [of 0 s "n - s"] by simp
  with \<open>s < n\<close> show ?thesis by (simp add: upt_conv_Cons)
qed

section \<open>Properties of the divergence operator\<close>

lemma divergence_face_apply:
  "divergence_face cm f dv i =
     (if i div 3 = f
      then of_int (f_sgn cm f) * meas (face cm f) * unitv (face cm f) (i mod 3)
      else dv i)"
proof (cases "i div 3 = f")
  case True
  then have "i = 3 * f + i mod 3" by presburger
  moreover have "i mod 3 = 0 \<or> i mod 3 = 1 \<or> i mod 3 = 2" by presburger
  ultimately have "i = 3 * f \<and> i mod 3 = 0 \<or> i = 3 * f + 1 \<and> i mod 3 = 1
      \<or> i = 3 * f + 2 \<and> i mod 3 = 2"
    by presburger
  with True show ?thesis
    by (auto simp: divergence_face_def Let_def)
next
  case False
  then have "i \<noteq> 3 * f" "i \<noteq> 3 * f + 1" "i \<noteq> 3 * f + 2" by presburger+
  with False show ?thesis
    by (simp add: divergence_face_def Let_def)
qed

lemma divergence_fold_apply:
  "fold (divergence_face cm) [0..<n] dv i =
     (if i div 3 < n
      then of_int (f_sgn cm (i div 3)) * meas (face cm (i div 3))
             * unitv (face cm (i div 3)) (i mod 3)
      else dv i)"
  by (induction n) (auto simp: divergence_face_apply less_Suc_eq)

lemma divergence_face_vol_c: "divergence_face (cm\<lparr>vol_c := w\<rparr>) = divergence_face cm"
  by (rule ext)+ (simp add: divergence_face_def)

text \<open>
  C4. For each face \<open>f\<close> of the cell and each component \<open>k\<close>, the builder stores
  \<open>sign(f) * area(f) * unit_normal(f)[k]\<close> at index \<open>3*f + k\<close> (face-major, the three
  components of a face contiguous); the cell volume does not enter the result (no
  division by it), and nothing beyond the \<open>3 * n_fc\<close> first entries is written.
\<close>

theorem divergence_vect_entries:
  assumes "f < n_fc cm" and "k < 3"
  shows "cs_cdofb_navsto_divergence_vect cm dv (3 * f + k)
           = of_int (f_sgn cm f) * meas (face cm f) * unitv (face cm f) k
         \<and> cs_cdofb_navsto_divergence_vect (cm\<lparr>vol_c := w\<rparr>) dv
           = cs_cdofb_navsto_divergence_vect cm dv
         \<and> (\<forall>i. 3 * n_fc cm \<le> i \<longrightarrow> cs_cdofb_navsto_divergence_vect cm dv i = dv i)"
proof -
  from assms have "(3 * f + k) div 3 = f" "(3 * f + k) mod 3 = k" by simp_all
  with assms show ?thesis
    by (auto simp: cs_cdofb_navsto_divergence_vect_def divergence_fold_apply
        divergence_face_vol_c)
qed

theorem divergence_vect_entries_witness:
  "(2::nat) < n_fc unit_cube \<and> (1::nat) < 3
   \<and> cs_cdofb_navsto_divergence_vect unit_cube (\<lambda>_. 7) 7 = - 1
   \<and> cs_cdofb_navsto_divergence_vect unit_cube (\<lambda>_. 7) 18 = 7"
  using divergence_vect_entries [of 2 unit_cube 1 "\<lambda>_. 7" 1]
  by (simp add: unit_cube_def)

text \<open>
  C7. When the signed face area vectors of the cell close (they sum to the zero vector),
  the entries of the divergence operator sum to zero over the faces, component by
  component.
\<close>

theorem divergence_vect_sum_zero:
  assumes "\<forall>k<3. (\<Sum>f<n_fc cm. of_int (f_sgn cm f) * meas (face cm f) * unitv (face cm f) k) = 0"
  shows "\<forall>k<3. (\<Sum>f<n_fc cm. cs_cdofb_navsto_divergence_vect cm dv (3 * f + k)) = 0"
proof (intro allI impI)
  fix k :: nat
  assume k: "k < 3"
  have "(\<Sum>f<n_fc cm. cs_cdofb_navsto_divergence_vect cm dv (3 * f + k))
      = (\<Sum>f<n_fc cm. of_int (f_sgn cm f) * meas (face cm f) * unitv (face cm f) k)"
  proof (rule sum.cong)
    fix f
    assume "f \<in> {..<n_fc cm}"
    then have f: "f < n_fc cm" by simp
    from k have "(3 * f + k) div 3 = f" "(3 * f + k) mod 3 = k" by simp_all
    with f show "cs_cdofb_navsto_divergence_vect cm dv (3 * f + k)
        = of_int (f_sgn cm f) * meas (face cm f) * unitv (face cm f) k"
      by (simp add: cs_cdofb_navsto_divergence_vect_def divergence_fold_apply)
  qed simp
  with assms k show "(\<Sum>f<n_fc cm. cs_cdofb_navsto_divergence_vect cm dv (3 * f + k)) = 0"
    by simp
qed

theorem divergence_vect_sum_zero_witness:
  "(\<Sum>f<n_fc unit_cube. cs_cdofb_navsto_divergence_vect unit_cube (\<lambda>_. 7) (3 * f + 1)) = 0"
proof -
  have six: "{..<6::nat} = {0, 1, 2, 3, 4, 5}" by auto
  have "\<forall>k<3. (\<Sum>f<n_fc unit_cube. of_int (f_sgn unit_cube f) * meas (face unit_cube f)
            * unitv (face unit_cube f) k) = 0"
    by (simp add: unit_cube_def six)
  from divergence_vect_sum_zero [OF this, of "\<lambda>_. 7", THEN spec, of 1] show ?thesis by simp
qed

section \<open>Properties of the diffusion tensor updaters\<close>

lemma fold_upt_3:
  "fold f [0..<3] r = f 2 (f 1 (f 0 r))"
  "fold f [0 + 1..<3] r = f 2 (f 1 r)"
  "fold f [1 + 1..<3] r = f 2 r"
  "fold f [2 + 1..<3] r = r"
  by (simp_all add: upt_rec numeral_2_eq_2)

lemma tensor_rows_unfold:
  "fold (tensor_row coef1 delta v2 dcv v b) [0..<3] r =
     r(b := coef1 + delta * v2 0,
       b + 1 := dcv 0 * v 1, b + 3 := dcv 0 * v 1,
       b + 2 := dcv 0 * v 2, b + 6 := dcv 0 * v 2,
       b + 4 := coef1 + delta * v2 1,
       b + 5 := dcv 1 * v 2, b + 7 := dcv 1 * v 2,
       b + 8 := coef1 + delta * v2 2)"
  unfolding tensor_row_def fold_upt_3 Let_def
  by simp

lemma tensor_rows_at:
  fixes v :: "'r::{plus,times} array" and coef1 delta :: 'r and b :: nat and r :: "'r array"
  defines "F \<equiv> fold (tensor_row coef1 delta (\<lambda>k. v k * v k) (\<lambda>k. delta * v k) v b) [0..<3] r"
  shows "F (b + 0) = tensor_block coef1 delta v 0 0"
    and "F (b + 1) = tensor_block coef1 delta v 0 1"
    and "F (b + 2) = tensor_block coef1 delta v 0 2"
    and "F (b + 3) = tensor_block coef1 delta v 1 0"
    and "F (b + 4) = tensor_block coef1 delta v 1 1"
    and "F (b + 5) = tensor_block coef1 delta v 1 2"
    and "F (b + 6) = tensor_block coef1 delta v 2 0"
    and "F (b + 7) = tensor_block coef1 delta v 2 1"
    and "F (b + 8) = tensor_block coef1 delta v 2 2"
  unfolding F_def tensor_rows_unfold tensor_block_def by simp_all

lemma tensor_rows_apply:
  "fold (tensor_row coef1 delta (\<lambda>k. v k * v k) (\<lambda>k. delta * v k) v b) [0..<3] r p =
     (if b \<le> p \<and> p < b + 9
      then tensor_block coef1 delta v ((p - b) div 3) ((p - b) mod 3)
      else r p)"
proof (cases "b \<le> p \<and> p < b + 9")
  case False
  then show ?thesis
    unfolding tensor_rows_unfold by auto
next
  case True
  then obtain k where p: "p = b + k" and k: "k < 9"
    by (metis le_Suc_ex nat_add_left_cancel_less)
  from k have "k = 0 \<or> k = 1 \<or> k = 2 \<or> k = 3 \<or> k = 4 \<or> k = 5 \<or> k = 6 \<or> k = 7 \<or> k = 8"
    by arith
  then show ?thesis
  proof (elim disjE)
    assume "k = 0" then show ?thesis unfolding p by (simp only: tensor_rows_at) simp
  next
    assume "k = 1" then show ?thesis unfolding p by (simp only: tensor_rows_at) simp
  next
    assume "k = 2" then show ?thesis unfolding p by (simp only: tensor_rows_at) simp
  next
    assume "k = 3" then show ?thesis unfolding p by (simp only: tensor_rows_at) simp
  next
    assume "k = 4" then show ?thesis unfolding p by (simp only: tensor_rows_at) simp
  next
    assume "k = 5" then show ?thesis unfolding p by (simp only: tensor_rows_at) simp
  next
    assume "k = 6" then show ?thesis unfolding p by (simp only: tensor_rows_at) simp
  next
    assume "k = 7" then show ?thesis unfolding p by (simp only: tensor_rows_at) simp
  next
    assume "k = 8" then show ?thesis unfolding p by (simp only: tensor_rows_at) simp
  qed
qed

lemma update_diff_cell_apply:
  "update_diff_cell g wmd_s a_t a_l theta_c velocity c values p =
     (if 9 * c \<le> p \<and> p < 9 * c + 9
      then cell_tensor g wmd_s a_t a_l theta_c velocity c ((p - 9 * c) div 3) ((p - 9 * c) mod 3)
      else values p)"
  unfolding update_diff_cell_def cell_tensor_def Let_def tensor_rows_apply ..

lemma tensor_block_sym: "tensor_block coef1 delta v ki kj = tensor_block coef1 delta v kj ki"
  by (simp add: tensor_block_def)

lemma block_index:
  assumes "ki < 3" "kj < (3::nat)"
  shows "9 * c \<le> 9 * c + 3 * ki + kj \<and> 9 * c + 3 * ki + kj < 9 * c + 9"
    and "(9 * c + 3 * ki + kj - 9 * c) div 3 = ki"
    and "(9 * c + 3 * ki + kj - 9 * c) mod 3 = kj"
proof -
  from assms show "9 * c \<le> 9 * c + 3 * ki + kj \<and> 9 * c + 3 * ki + kj < 9 * c + 9"
    by arith
  have eq: "9 * c + 3 * ki + kj - 9 * c = 3 * ki + kj" by simp
  from assms show "(9 * c + 3 * ki + kj - 9 * c) div 3 = ki"
    unfolding eq by simp
  from assms show "(9 * c + 3 * ki + kj - 9 * c) mod 3 = kj"
    unfolding eq by simp
qed

lemma update_diff_cell_block:
  assumes "ki < 3" "kj < 3"
  shows "update_diff_cell g wmd_s a_t a_l theta_c velocity c T (9 * c + 3 * ki + kj)
     = cell_tensor g wmd_s a_t a_l theta_c velocity c ki kj"
proof -
  from assms have "3 * ki + kj < 9" by arith
  with block_index(2,3) [OF assms, of c] show ?thesis
    by (simp add: update_diff_cell_apply)
qed

lemma cell_tensor_sym:
  "cell_tensor g wmd_s a_t a_l theta_c velocity c ki kj
     = cell_tensor g wmd_s a_t a_l theta_c velocity c kj ki"
  by (simp add: cell_tensor_def Let_def tensor_block_sym)

lemma update_diff_cell_frame:
  "c' \<noteq> c \<Longrightarrow> ki < 3 \<Longrightarrow> kj < 3 \<Longrightarrow>
   update_diff_cell g wmd_s a_t a_l theta_c velocity c' T (9 * c + 3 * ki + kj)
     = T (9 * c + 3 * ki + kj)"
proof -
  assume "c' \<noteq> c" "ki < 3" "kj < 3"
  then have "\<not> (9 * c' \<le> 9 * c + 3 * ki + kj \<and> 9 * c + 3 * ki + kj < 9 * c' + 9)"
    by arith
  then show ?thesis
    unfolding update_diff_cell_apply by (simp only: if_False)
qed

lemma update_diff_cell_sym:
  assumes "sym_block T c \<or> c' = c"
  shows "sym_block (update_diff_cell g wmd_s a_t a_l theta_c velocity c' T) c"
proof (cases "c' = c")
  case True
  then show ?thesis
    unfolding sym_block_def
    by (simp add: update_diff_cell_block cell_tensor_sym)
next
  case False
  with assms show ?thesis
    unfolding sym_block_def by (simp add: update_diff_cell_frame)
qed

lemma update_sat_diff_soil_sym:
  assumes "sym_block T c \<or> cell_in_soil g s c"
  shows "sym_block (update_sat_diff_soil g tc velocity s T) c"
proof (cases "cell_in_soil g s c")
  case True
  then obtain i where i: "i \<in> set [0..<n_elts (soil_zone g s)]" "zone_cell (soil_zone g s) i = c"
    by (auto simp: cell_in_soil_def)
  show ?thesis
    unfolding update_sat_diff_soil_def Let_def soil_zone_def [symmetric]
    by (rule fold_establish [where Q = "\<lambda>T. sym_block T c", OF i(1)]) (simp_all add: i(2) update_diff_cell_sym)
next
  case False
  with assms have T: "sym_block T c" by simp
  show ?thesis
    unfolding update_sat_diff_soil_def Let_def
    by (rule fold_invariant [where Q = "\<lambda>_. True" and P = "\<lambda>T. sym_block T c"])
      (simp_all add: update_diff_cell_sym T)
qed

lemma update_diff_soil_sym:
  assumes "sym_block T c \<or> cell_in_soil g s c"
  shows "sym_block (update_diff_soil g tc theta velocity s T) c"
proof (cases "cell_in_soil g s c")
  case True
  then obtain i where i: "i \<in> set [0..<n_elts (soil_zone g s)]" "zone_cell (soil_zone g s) i = c"
    by (auto simp: cell_in_soil_def)
  show ?thesis
    unfolding update_diff_soil_def Let_def soil_zone_def [symmetric]
    by (rule fold_establish [where Q = "\<lambda>T. sym_block T c", OF i(1)]) (simp_all add: i(2) update_diff_cell_sym)
next
  case False
  with assms have T: "sym_block T c" by simp
  show ?thesis
    unfolding update_diff_soil_def Let_def
    by (rule fold_invariant [where Q = "\<lambda>_. True" and P = "\<lambda>T. sym_block T c"])
      (simp_all add: update_diff_cell_sym T)
qed

lemma update_diff_cell_block_is:
  assumes "if c' = c then X = cell_tensor g wmd_s a_t a_l theta_c velocity c else block_is T c X"
  shows "block_is (update_diff_cell g wmd_s a_t a_l theta_c velocity c' T) c X"
  using assms unfolding block_is_def
  by (simp add: update_diff_cell_frame update_diff_cell_block split: if_splits)

lemma update_sat_diff_soil_block_is:
  assumes "if cell_in_soil g s c
           then X = cell_tensor g (wmd tc s) (alpha_t tc s) (alpha_l tc s) (saturated_moisture g s)
                      velocity c
           else block_is T c X"
  shows "block_is (update_sat_diff_soil g tc velocity s T) c X"
proof (cases "cell_in_soil g s c")
  case True
  then obtain i where i: "i \<in> set [0..<n_elts (soil_zone g s)]" "zone_cell (soil_zone g s) i = c"
    by (auto simp: cell_in_soil_def)
  from True assms have X: "X = cell_tensor g (wmd tc s) (alpha_t tc s) (alpha_l tc s)
      (saturated_moisture g s) velocity c" by simp
  show ?thesis
    unfolding update_sat_diff_soil_def Let_def soil_zone_def [symmetric]
    by (rule fold_establish [where Q = "\<lambda>T. block_is T c X", OF i(1)])
      (simp_all add: i(2) X update_diff_cell_block_is)
next
  case False
  with assms have T: "block_is T c X" by simp
  from False have ne: "\<And>i. i < n_elts (soil_zone g s) \<Longrightarrow> zone_cell (soil_zone g s) i \<noteq> c"
    by (auto simp: cell_in_soil_def)
  show ?thesis
    unfolding update_sat_diff_soil_def Let_def soil_zone_def [symmetric]
    by (rule fold_invariant [where Q = "\<lambda>i. i < n_elts (soil_zone g s)"
          and P = "\<lambda>T. block_is T c X"])
      (simp_all add: update_diff_cell_block_is T ne)
qed

lemma update_diff_soil_block_is:
  assumes "if cell_in_soil g s c
           then X = cell_tensor g (wmd tc s) (alpha_t tc s) (alpha_l tc s) (theta c) velocity c
           else block_is T c X"
  shows "block_is (update_diff_soil g tc theta velocity s T) c X"
proof (cases "cell_in_soil g s c")
  case True
  then obtain i where i: "i \<in> set [0..<n_elts (soil_zone g s)]" "zone_cell (soil_zone g s) i = c"
    by (auto simp: cell_in_soil_def)
  from True assms have X: "X = cell_tensor g (wmd tc s) (alpha_t tc s) (alpha_l tc s)
      (theta c) velocity c" by simp
  show ?thesis
    unfolding update_diff_soil_def Let_def soil_zone_def [symmetric]
    by (rule fold_establish [where Q = "\<lambda>T. block_is T c X", OF i(1)])
      (simp_all add: i(2) X update_diff_cell_block_is)
next
  case False
  with assms have T: "block_is T c X" by simp
  from False have ne: "\<And>i. i < n_elts (soil_zone g s) \<Longrightarrow> zone_cell (soil_zone g s) i \<noteq> c"
    by (auto simp: cell_in_soil_def)
  show ?thesis
    unfolding update_diff_soil_def Let_def soil_zone_def [symmetric]
    by (rule fold_invariant [where Q = "\<lambda>i. i < n_elts (soil_zone g s)"
          and P = "\<lambda>T. block_is T c X"])
      (simp_all add: update_diff_cell_block_is T ne)
qed

lemma soil_loop_block_is:
  assumes s: "s < n" and last: "\<And>s'. s < s' \<Longrightarrow> s' < n \<Longrightarrow> \<not> cell_in_soil g s' c"
    and cell: "cell_in_soil g s c"
    and step: "\<And>s' T. (if cell_in_soil g s' c then X = Y s' else block_is T c X)
                 \<Longrightarrow> block_is (f s' T) c X"
    and X: "X = Y s"
  shows "block_is (fold f [0..<n] T) c X"
proof (rule fold_establish_from [where Q = "\<lambda>T. block_is T c X", OF upt_split [OF s]])
  fix T show "block_is (f s T) c X"
    by (rule step) (simp add: cell X)
next
  fix s' T
  assume "s' \<in> set [Suc s..<n]" and T: "block_is T c X"
  then have "\<not> cell_in_soil g s' c" by (simp add: last)
  with T show "block_is (f s' T) c X"
    by (intro step) simp
qed

lemma cell_tensor_real:
  fixes g :: "real cs_glob"
  assumes "libm_sqrt g = sqrt" and "ki < 3" "kj < 3"
  shows "cell_tensor g wmd_s a_t a_l theta_c velocity c ki kj
    = dispersion_tensor_spec wmd_s a_t a_l theta_c (cs_math_zero_threshold g)
        (\<lambda>k. velocity (3 * c + k)) ki kj"
  using assms
  by (simp add: cell_tensor_def dispersion_tensor_spec_def vnorm3_def Let_def tensor_block_def
      power2_eq_square mult_ac)

lemma dispersion_tensor_spec_zero:
  assumes "0 \<le> thr" and "vnorm3 v = 0" and "i < 3" "j < 3"
  shows "dispersion_tensor_spec wmd_s a_t a_l theta thr v i j = (if i = j then wmd_s * theta else 0)"
  using assms by (simp add: dispersion_tensor_spec_def)

lemma ex_cell_in_soil: "cell_in_soil ex_glob s c = (c = s)"
  by (auto simp: cell_in_soil_def soil_zone_def ex_glob_def zone_cell_def)

text \<open>
  C8. For every cell of the zone of a soil, the block written by either updater is
  symmetric: \<open>T[i][j]\<close> and \<open>T[j][i]\<close> are the same value. The number type is arbitrary and
  no law of its arithmetic is used: the equality comes from the store of the mirrored
  entry, which copies the entry computed once, and holds bit for bit in any arithmetic.
\<close>

theorem diff_tensor_symmetric:
  fixes g :: "'r::{zero,plus,minus,times,inverse,ord} cs_glob"
  assumes soil: "soil_id < n_soils g" and cell: "cell_in_soil g soil_id c"
    and tr: "diffusivity tr = Some values" "tr_context tr = Some tc"
    and vel: "darcy_velocity_field tc = Some velocity"
  shows "(\<exists>T. update_sat_diff_pty g (Some tr) = Inr (tr\<lparr>diffusivity := Some T\<rparr>) \<and> sym_block T c)
       \<and> (\<forall>theta. l_saturation tc = Some theta \<longrightarrow>
            (\<exists>T. update_diff_pty g (Some tr) = Inr (tr\<lparr>diffusivity := Some T\<rparr>) \<and> sym_block T c))"
proof (intro conjI allI impI)
  from soil have s: "soil_id \<in> set [0..<n_soils g]" by simp
  have "sym_block (fold (update_sat_diff_soil g tc velocity) [0..<n_soils g] values) c"
    by (rule fold_establish [where Q = "\<lambda>T. sym_block T c", OF s]) (simp_all add: update_sat_diff_soil_sym cell)
  then show "\<exists>T. update_sat_diff_pty g (Some tr) = Inr (tr\<lparr>diffusivity := Some T\<rparr>) \<and> sym_block T c"
    by (auto simp: update_sat_diff_pty_def tr vel)
next
  fix theta
  assume th: "l_saturation tc = Some theta"
  from soil have s: "soil_id \<in> set [0..<n_soils g]" by simp
  have "sym_block (fold (update_diff_soil g tc theta velocity) [0..<n_soils g] values) c"
    by (rule fold_establish [where Q = "\<lambda>T. sym_block T c", OF s]) (simp_all add: update_diff_soil_sym cell)
  then show "\<exists>T. update_diff_pty g (Some tr) = Inr (tr\<lparr>diffusivity := Some T\<rparr>) \<and> sym_block T c"
    by (auto simp: update_diff_pty_def tr vel th)
qed

theorem diff_tensor_symmetric_witness:
  "(\<exists>T. update_sat_diff_pty ex_glob (Some ex_tracer) = Inr (ex_tracer\<lparr>diffusivity := Some T\<rparr>)
        \<and> sym_block T 0)
   \<and> (\<exists>T. update_diff_pty ex_glob (Some ex_tracer) = Inr (ex_tracer\<lparr>diffusivity := Some T\<rparr>)
        \<and> sym_block T 0)"
proof -
  have "0 < n_soils ex_glob" "cell_in_soil ex_glob 0 0"
    "diffusivity ex_tracer = Some ex_zero" "tr_context ex_tracer = Some ex_tc"
    "darcy_velocity_field ex_tc = Some ex_velocity"
    "l_saturation ex_tc = Some ex_theta"
    by (simp_all add: ex_cell_in_soil) (simp_all add: ex_glob_def ex_tracer_def ex_tc_def)
  from diff_tensor_symmetric [OF this(1-5)] this(6) show ?thesis by simp
qed

text \<open>
  C2. Take a cell \<open>c\<close> of the zone of a soil (and of the zone of no later soil: soils
  partition the mesh), and the Darcy velocity \<open>v\<close> of the cell. After either updater the
  entry \<open>(ki, kj)\<close> of the block of \<open>c\<close> is the tensor of the specification for the
  parameters of the soil: \<open>wmd*theta + alpha_t*|v| + delta*v_i^2\<close> on the diagonal and
  \<open>delta*v_i*v_j\<close> off it, with \<open>theta\<close> the saturated moisture of the soil in the
  saturated variant and the saturation of the cell in the general one. When \<open>|v| = 0\<close>
  (and the threshold is not negative) the diagonal is \<open>wmd*theta\<close> and the rest is \<open>0\<close>.
\<close>

theorem diff_tensor_values:
  fixes g :: "real cs_glob"
  assumes sqrt: "libm_sqrt g = sqrt"
    and soil: "soil_id < n_soils g" and cell: "cell_in_soil g soil_id c"
    and last: "\<forall>s'. soil_id < s' \<and> s' < n_soils g \<longrightarrow> \<not> cell_in_soil g s' c"
    and tr: "diffusivity tr = Some values" "tr_context tr = Some tc"
    and vel: "darcy_velocity_field tc = Some velocity"
    and k: "ki < 3" "kj < 3"
  defines "v \<equiv> \<lambda>k. velocity (3 * c + k)"
  defines "spec \<equiv> \<lambda>theta. dispersion_tensor_spec (wmd tc soil_id) (alpha_t tc soil_id)
      (alpha_l tc soil_id) theta (cs_math_zero_threshold g) v ki kj"
  shows "(\<exists>T. update_sat_diff_pty g (Some tr) = Inr (tr\<lparr>diffusivity := Some T\<rparr>)
            \<and> T (9 * c + 3 * ki + kj) = spec (saturated_moisture g soil_id))
       \<and> (\<forall>theta. l_saturation tc = Some theta \<longrightarrow>
            (\<exists>T. update_diff_pty g (Some tr) = Inr (tr\<lparr>diffusivity := Some T\<rparr>)
               \<and> T (9 * c + 3 * ki + kj) = spec (theta c)))
       \<and> (\<forall>theta_c. 0 \<le> cs_math_zero_threshold g \<and> vnorm3 v = 0 \<longrightarrow>
            spec theta_c = (if ki = kj then wmd tc soil_id * theta_c else 0))"
proof (intro conjI allI impI)
  let ?X = "\<lambda>th. cell_tensor g (wmd tc soil_id) (alpha_t tc soil_id) (alpha_l tc soil_id) th
      velocity c"
  have "block_is (fold (update_sat_diff_soil g tc velocity) [0..<n_soils g] values) c
      (?X (saturated_moisture g soil_id))"
    using last
    by (intro soil_loop_block_is [OF soil _ cell, where Y = "\<lambda>s. cell_tensor g (wmd tc s)
        (alpha_t tc s) (alpha_l tc s) (saturated_moisture g s) velocity c"]
        update_sat_diff_soil_block_is) simp_all
  with k have "fold (update_sat_diff_soil g tc velocity) [0..<n_soils g] values
      (9 * c + 3 * ki + kj) = spec (saturated_moisture g soil_id)"
    by (simp add: block_is_def spec_def v_def cell_tensor_real [OF sqrt])
  then show "\<exists>T. update_sat_diff_pty g (Some tr) = Inr (tr\<lparr>diffusivity := Some T\<rparr>)
      \<and> T (9 * c + 3 * ki + kj) = spec (saturated_moisture g soil_id)"
    by (auto simp: update_sat_diff_pty_def tr vel)
next
  fix theta
  assume th: "l_saturation tc = Some theta"
  let ?X = "\<lambda>th. cell_tensor g (wmd tc soil_id) (alpha_t tc soil_id) (alpha_l tc soil_id) th
      velocity c"
  have "block_is (fold (update_diff_soil g tc theta velocity) [0..<n_soils g] values) c
      (?X (theta c))"
    using last
    by (intro soil_loop_block_is [OF soil _ cell, where Y = "\<lambda>s. cell_tensor g (wmd tc s)
        (alpha_t tc s) (alpha_l tc s) (theta c) velocity c"]
        update_diff_soil_block_is) simp_all
  with k have "fold (update_diff_soil g tc theta velocity) [0..<n_soils g] values
      (9 * c + 3 * ki + kj) = spec (theta c)"
    by (simp add: block_is_def spec_def v_def cell_tensor_real [OF sqrt])
  then show "\<exists>T. update_diff_pty g (Some tr) = Inr (tr\<lparr>diffusivity := Some T\<rparr>)
      \<and> T (9 * c + 3 * ki + kj) = spec (theta c)"
    by (auto simp: update_diff_pty_def tr vel th)
next
  fix theta_c
  assume "0 \<le> cs_math_zero_threshold g \<and> vnorm3 v = 0"
  with k show "spec theta_c = (if ki = kj then wmd tc soil_id * theta_c else 0)"
    by (simp add: spec_def dispersion_tensor_spec_zero)
qed

theorem diff_tensor_values_witness:
  "(\<exists>T. update_sat_diff_pty ex_glob (Some ex_tracer) = Inr (ex_tracer\<lparr>diffusivity := Some T\<rparr>)
        \<and> T 1 = 12 / 5)
   \<and> (\<exists>T. update_diff_pty ex_glob (Some ex_tracer) = Inr (ex_tracer\<lparr>diffusivity := Some T\<rparr>)
        \<and> T 1 = 12 / 5)"
proof -
  have h: "libm_sqrt ex_glob = sqrt" "0 < n_soils ex_glob" "cell_in_soil ex_glob 0 0"
    "\<forall>s'. 0 < s' \<and> s' < n_soils ex_glob \<longrightarrow> \<not> cell_in_soil ex_glob s' 0"
    "diffusivity ex_tracer = Some ex_zero" "tr_context ex_tracer = Some ex_tc"
    "darcy_velocity_field ex_tc = Some ex_velocity"
    "(0::nat) < 3" "(1::nat) < 3"
    by (simp_all add: ex_cell_in_soil) (simp_all add: ex_glob_def ex_tracer_def ex_tc_def)
  have th: "l_saturation ex_tc = Some ex_theta" by (simp add: ex_tc_def)
  have v: "vnorm3 ex_velocity = 5"
    by (simp add: vnorm3_def ex_velocity_def)
  have vk: "ex_velocity 0 = 3" "ex_velocity (Suc 0) = 4" "ex_theta 0 = 1 / 2"
    by (simp_all add: ex_velocity_def ex_theta_def)
  have p: "wmd ex_tc 0 = 1" "alpha_t ex_tc 0 = 1" "alpha_l ex_tc 0 = 2"
    "cs_math_zero_threshold ex_glob = 1 / 10 ^ 38" "saturated_moisture ex_glob 0 = 1 / 2"
    by (simp_all add: ex_tc_def ex_glob_def)
  from diff_tensor_values [OF h] th show ?thesis
    by (simp add: dispersion_tensor_spec_def p v vk)
qed

section \<open>Bulk and cell-wise evaluators\<close>

lemma fold_store_apply:
  assumes "i0 < n" and "\<And>i. i < n \<Longrightarrow> ix i = ix i0 \<Longrightarrow> val i = val i0"
  shows "fold (\<lambda>i res. res(ix i := val i)) [0..<n] result (ix i0) = val i0"
proof -
  from assms(1) have "i0 \<in> set [0..<n]" by simp
  then show ?thesis
    by (rule fold_establish [where Q = "\<lambda>res. res (ix i0) = val i0"]) (simp_all add: assms(2))
qed

lemma agree_store:
  assumes "i < n"
    and "bulk = Inr (fold (\<lambda>i res. res(out_index elts d i := val (elt_cell elts i)))
                      [0..<n] result)"
    and "cw = Inr (val (elt_cell elts i))"
  shows "agree bulk cw (out_index elts d i)"
proof -
  have "fold (\<lambda>i res. res(out_index elts d i := val (elt_cell elts i))) [0..<n] result
          (out_index elts d i) = val (elt_cell elts i)"
    by (rule fold_store_apply [OF assms(1)]) (simp add: out_index_def split: if_splits)
  with assms(2,3) show ?thesis by (simp add: agree_def)
qed

lemma sat_time_bulk:
  "get_time_pty4std_sat_tracer g n elts d (Some tc) result =
     Inr (fold (\<lambda>i res. res(out_index elts d i :=
                  saturated_moisture g (cell2soil g (elt_cell elts i))
                    + rho_kd tc (cell2soil g (elt_cell elts i)))) [0..<n] result)"
  by (simp add: get_time_pty4std_sat_tracer_def Let_def out_index_def elt_cell_def cong: if_cong)

lemma sat_reaction_bulk:
  "get_reaction_pty4std_sat_tracer g n elts d (Some tc) result =
     Inr (fold (\<lambda>i res. res(out_index elts d i :=
                  (saturated_moisture g (cell2soil g (elt_cell elts i))
                    + rho_kd tc (cell2soil g (elt_cell elts i)))
                  * reaction_rate tc (cell2soil g (elt_cell elts i)))) [0..<n] result)"
  by (simp add: get_reaction_pty4std_sat_tracer_def Let_def out_index_def elt_cell_def cong: if_cong)

lemma time_bulk:
  "l_saturation tc = Some theta \<Longrightarrow>
   get_time_pty4std_tracer g n elts d (Some tc) result =
     Inr (fold (\<lambda>i res. res(out_index elts d i :=
                  theta (elt_cell elts i) + rho_kd tc (cell2soil g (elt_cell elts i))))
            [0..<n] result)"
  by (cases elts) (simp_all add: get_time_pty4std_tracer_def Let_def out_index_def elt_cell_def cong: if_cong)

lemma reaction_bulk:
  "l_saturation tc = Some theta \<Longrightarrow>
   get_reaction_pty4std_tracer g n elts d (Some tc) result =
     Inr (fold (\<lambda>i res. res(out_index elts d i :=
                  (theta (elt_cell elts i) + rho_kd tc (cell2soil g (elt_cell elts i)))
                  * reaction_rate tc (cell2soil g (elt_cell elts i))))
            [0..<n] result)"
  by (cases elts) (simp_all add: get_reaction_pty4std_tracer_def Let_def out_index_def elt_cell_def cong: if_cong)

text \<open>
  C5. In each of the four families (time and reaction coefficient, saturated and general
  model), for every position \<open>i\<close> of the bulk loop, the entry of \<open>result\<close> that the bulk
  evaluator writes for the cell treated at \<open>i\<close> is the value that the cell-wise evaluator
  returns on a cell mesh of that cell, for the same context (the evaluation time is read
  by none of them). The number type is arbitrary: the two values are the same expression.
\<close>

theorem bulk_cellwise_agree:
  fixes g :: "'r::{plus,times} cs_glob"
  assumes i: "i < n" and cm: "c_id cm = elt_cell elts i"
  shows "agree (get_time_pty4std_sat_tracer g n elts dense_output (Some tc) result)
           (get_time_pty4std_sat_tracer_cw g cm (Some tc)) (out_index elts dense_output i)
       \<and> agree (get_reaction_pty4std_sat_tracer g n elts dense_output (Some tc) result)
           (get_reaction_pty4std_sat_tracer_cw g cm (Some tc)) (out_index elts dense_output i)
       \<and> (l_saturation tc \<noteq> None \<longrightarrow>
           agree (get_time_pty4std_tracer g n elts dense_output (Some tc) result)
             (get_time_pty4std_tracer_cw g cm (Some tc)) (out_index elts dense_output i)
         \<and> agree (get_reaction_pty4std_tracer g n elts dense_output (Some tc) result)
             (get_reaction_pty4std_tracer_cw g cm (Some tc)) (out_index elts dense_output i))"
proof (intro conjI impI)
  show "agree (get_time_pty4std_sat_tracer g n elts dense_output (Some tc) result)
           (get_time_pty4std_sat_tracer_cw g cm (Some tc)) (out_index elts dense_output i)"
    by (rule agree_store [OF i sat_time_bulk])
      (simp add: get_time_pty4std_sat_tracer_cw_def Let_def cm)
  show "agree (get_reaction_pty4std_sat_tracer g n elts dense_output (Some tc) result)
           (get_reaction_pty4std_sat_tracer_cw g cm (Some tc)) (out_index elts dense_output i)"
    by (rule agree_store [OF i sat_reaction_bulk])
      (simp add: get_reaction_pty4std_sat_tracer_cw_def Let_def cm)
next
  assume "l_saturation tc \<noteq> None"
  then obtain theta where th: "l_saturation tc = Some theta" by auto
  show "agree (get_time_pty4std_tracer g n elts dense_output (Some tc) result)
             (get_time_pty4std_tracer_cw g cm (Some tc)) (out_index elts dense_output i)"
    by (rule agree_store [OF i time_bulk [OF th]])
      (simp add: get_time_pty4std_tracer_cw_def Let_def cm th)
  show "agree (get_reaction_pty4std_tracer g n elts dense_output (Some tc) result)
             (get_reaction_pty4std_tracer_cw g cm (Some tc)) (out_index elts dense_output i)"
    by (rule agree_store [OF i reaction_bulk [OF th]])
      (simp add: get_reaction_pty4std_tracer_cw_def Let_def cm th)
qed

theorem bulk_cellwise_agree_witness:
  "agree (get_time_pty4std_tracer ex_glob 2 (Some (\<lambda>i. 1 - i)) True (Some ex_tc) (\<lambda>p. 0))
     (get_time_pty4std_tracer_cw ex_glob ex_cell_mesh (Some ex_tc)) 0
   \<and> agree (get_reaction_pty4std_sat_tracer ex_glob 2 (Some (\<lambda>i. 1 - i)) True (Some ex_tc) (\<lambda>p. 0))
     (get_reaction_pty4std_sat_tracer_cw ex_glob ex_cell_mesh (Some ex_tc)) 0
   \<and> get_reaction_pty4std_sat_tracer_cw ex_glob ex_cell_mesh (Some ex_tc) = Inr (3 / 2)"
proof -
  have h: "(0::nat) < 2" "c_id ex_cell_mesh = elt_cell (Some (\<lambda>i. 1 - i)) 0"
    "l_saturation ex_tc \<noteq> None"
    by (simp_all add: ex_cell_mesh_def elt_cell_def ex_tc_def)
  have "get_reaction_pty4std_sat_tracer_cw ex_glob ex_cell_mesh (Some ex_tc) = Inr (3 / 2)"
    by (simp add: get_reaction_pty4std_sat_tracer_cw_def ex_glob_def ex_tc_def)
  with bulk_cellwise_agree [OF h(1,2), of ex_glob True ex_tc "\<lambda>p. 0"] h(3) show ?thesis
    by (simp add: out_index_def)
qed

section \<open>Properties of the precipitation and dissolution update\<close>

lemma fold_concat_map: "fold f (concat (map h xs)) = fold (\<lambda>x. fold f (h x)) xs"
  by (induction xs) simp_all

lemma precip_soils_visits:
  "precip_soils g tc c_satura c_w_save c2v_adj theta
     = fold (precip_visit g tc c_satura c_w_save c2v_adj theta) (slot_visits g c2v_adj)"
  unfolding precip_soils_def slot_visits_def fold_concat_map fold_map
  by (rule arg_cong [where f = "\<lambda>f. fold f _"])
    (simp add: fun_eq_iff precip_soil_def precip_cell_def precip_visit_def Let_def soil_zone_def
      comp_def)

lemma CS_MIN_real: "CS_MIN (a::real) b = min a b"
  by (simp add: CS_MIN_def min_def)

lemma CS_MAX_real: "CS_MAX (a::real) b = max a b"
  by (simp add: CS_MAX_def max_def)

lemma precip_slot_nonneg:
  assumes "0 < rho" "0 < theta_c" "\<forall>j. 0 \<le> c_p j"
  shows "0 \<le> snd (precip_slot c_satura c_w_save c2v_adj rho theta_c j0 (c_w, c_p)) j"
proof -
  let ?w = "c_w_save (ids c2v_adj j0)"
  let ?m = "min (c_satura (ids c2v_adj j0)) (?w + rho * (1 / theta_c) * c_p j0)"
  from assms have pos: "0 < theta_c * (1 / rho)" by simp
  have "?m - ?w \<le> rho * (1 / theta_c) * c_p j0" by simp
  then have "theta_c * (1 / rho) * (?m - ?w) \<le> theta_c * (1 / rho) * (rho * (1 / theta_c) * c_p j0)"
    using pos by (intro mult_left_mono) simp_all
  also from assms have "\<dots> = c_p j0" by simp
  finally have diss: "0 \<le> c_p j0 - theta_c * (1 / rho) * (?m - ?w)" by simp
  have prec: "c_satura (ids c2v_adj j0) < ?w \<Longrightarrow>
      0 \<le> c_p j0 + theta_c * (1 / rho) * (?w - c_satura (ids c2v_adj j0))"
    using assms pos by (intro add_nonneg_nonneg mult_nonneg_nonneg) simp_all
  from diss prec assms(3) show ?thesis
    by (simp add: precip_slot_def Let_def CS_MIN_real)
qed

lemma in_concat_map: "y \<in> set xs \<Longrightarrow> x \<in> set (f y) \<Longrightarrow> x \<in> set (concat (map f xs))"
  by auto

lemma in_slot_visits:
  "(s, c, j) \<in> set (slot_visits g c2v_adj) \<longleftrightarrow>
     s < n_soils g \<and> cell_in_soil g s c \<and> idx c2v_adj c \<le> j \<and> j < idx c2v_adj (c + 1)"
proof
  assume "(s, c, j) \<in> set (slot_visits g c2v_adj)"
  then show "s < n_soils g \<and> cell_in_soil g s c \<and> idx c2v_adj c \<le> j \<and> j < idx c2v_adj (c + 1)"
    by (auto simp: slot_visits_def cell_in_soil_def cell_slots_def)
next
  assume "s < n_soils g \<and> cell_in_soil g s c \<and> idx c2v_adj c \<le> j \<and> j < idx c2v_adj (c + 1)"
  then obtain i where i: "i < n_elts (soil_zone g s)" "zone_cell (soil_zone g s) i = c"
    and s: "s < n_soils g" and j: "idx c2v_adj c \<le> j" "j < idx c2v_adj (c + 1)"
    by (auto simp: cell_in_soil_def)
  show "(s, c, j) \<in> set (slot_visits g c2v_adj)"
    unfolding slot_visits_def
  proof (rule in_concat_map [where y = s], goal_cases)
    case 1
    from s show ?case by simp
  next
    case 2
    show ?case
    proof (rule in_concat_map [where y = i], goal_cases)
      case 1
      from i(1) show ?case by simp
    next
      case 2
      from j i(2) show ?case by (simp add: cell_slots_def image_iff)
    qed
  qed
qed

lemma precip_visit_nonneg:
  assumes "medium_positive g tc theta" "x \<in> set (slot_visits g c2v_adj)" "\<forall>j. 0 \<le> snd st j"
  shows "\<forall>j. 0 \<le> snd (precip_visit g tc c_satura c_w_save c2v_adj theta x st) j"
proof -
  obtain s c j where x: "x = (s, c, j)" by (cases x)
  obtain c_w c_p where st: "st = (c_w, c_p)" by (cases st)
  from assms(1,2) have "0 < rho_bulk tc (id_s (soil_by_id g s))" "0 < theta c"
    by (auto simp: x in_slot_visits medium_positive_def)
  with assms(3) show ?thesis
    by (auto simp: x st precip_visit_def intro: precip_slot_nonneg)
qed

lemma precip_soils_nonneg:
  assumes "medium_positive g tc theta" "\<forall>j. 0 \<le> c_p j"
  shows "\<forall>j. 0 \<le> snd (precip_soils g tc c_satura c_w_save c2v_adj theta (c_w, c_p)) j"
  unfolding precip_soils_visits
  by (rule fold_invariant [where Q = "\<lambda>x. x \<in> set (slot_visits g c2v_adj)"
        and P = "\<lambda>st. \<forall>j. 0 \<le> snd st j"])
    (simp_all add: assms precip_visit_nonneg)

lemma update_precipitation_vb_Some:
  assumes "tr_context tr = Some tc" "conc_satura tc = Some c_satura" "conc_precip tc = Some c_p"
    "l_saturation tc = Some theta" "precip_field tc = Some field_val"
  shows "\<exists>tr'. update_precipitation_vb g connect quant recv (Some tr) = Inr tr'
    \<and> tracer_c_p tr' = Some (snd (precip_soils g tc c_satura (eq_vertex_values tr) (c2v connect)
          theta (eq_vertex_values tr, c_p)))
    \<and> eq_vertex_values tr' =
        (let c_w1 = fst (precip_soils g tc c_satura (eq_vertex_values tr) (c2v connect)
          theta (eq_vertex_values tr, c_p))
         in if vtx_interfaces connect then cs_interface_set_max recv (n_vertices quant) c_w1
            else c_w1)"
  by (simp add: update_precipitation_vb_def assms Let_def split_def tracer_c_p_def)

text \<open>
  In exact arithmetic the precipitate concentration stays non-negative: if it is
  non-negative in every slot before the update, and the bulk density of every soil and the
  saturation of every cell of its zone are positive, then the update succeeds and the
  precipitate concentration is non-negative in every slot after it. The dissolution
  branch subtracts at most what the slot holds, because \<open>c_w_max\<close> is at most
  \<open>c_w_save[v] + rho/theta_c * c_p[j]\<close>. The argument uses \<open>theta_c * (1/rho) * (rho * (1/theta_c)
  * c_p[j]) = c_p[j]\<close>, which rounding does not preserve.
\<close>

lemma precip_nonneg_exact:
  assumes "tr_context tr = Some tc" "conc_satura tc = Some c_satura" "conc_precip tc = Some c_p"
    "l_saturation tc = Some theta" "precip_field tc = Some field_val"
    and "\<forall>j. 0 \<le> c_p j" and "medium_positive g tc theta"
  shows "\<exists>tr' c_p'. update_precipitation_vb g connect quant recv (Some tr) = Inr tr'
    \<and> tracer_c_p tr' = Some c_p' \<and> (\<forall>j. 0 \<le> c_p' j)"
  using update_precipitation_vb_Some [OF assms(1-5), of g connect quant recv]
    precip_soils_nonneg [OF assms(7,6), of c_satura "eq_vertex_values tr" "c2v connect"
      "eq_vertex_values tr"]
  by auto

lemma ex_medium_positive: "medium_positive ex_glob ex_tc ex_theta"
  by (simp add: medium_positive_def ex_glob_def ex_tc_def ex_theta_def)

lemma ex_tracer_fields:
  "tr_context ex_tracer = Some ex_tc"
  "conc_satura ex_tc = Some ex_c_sat"
  "conc_precip ex_tc = Some ex_c_p"
  "l_saturation ex_tc = Some ex_theta"
  "precip_field ex_tc = Some ex_zero"
  by (simp_all add: ex_tracer_def ex_tc_def)

lemma precip_nonneg_exact_example:
  "\<exists>tr' c_p'. update_precipitation_vb ex_glob ex_connect ex_quant ex_recv (Some ex_tracer) = Inr tr'
     \<and> tracer_c_p tr' = Some c_p' \<and> (\<forall>j. 0 \<le> c_p' j)"
  by (rule precip_nonneg_exact [OF ex_tracer_fields _ ex_medium_positive]) (simp add: ex_c_p_def)

lemma fold_max_le: "(\<forall>x\<in>set xs. x \<le> b) \<Longrightarrow> a \<le> b \<Longrightarrow> fold max xs a \<le> (b::real)"
  by (induction xs arbitrary: a) simp_all

lemma precip_slot_c_w_le:
  assumes "c_w v \<le> c_satura v" "c_w_save v \<le> c_satura v"
  shows "fst (precip_slot c_satura c_w_save c2v_adj rho theta_c j (c_w, c_p)) v \<le> c_satura v"
  using assms by (auto simp: precip_slot_def Let_def CS_MIN_real CS_MAX_real)

lemma precip_slot_c_w_eq:
  assumes "c_satura v < c_w_save v" "c_w v = c_satura v \<or> ids c2v_adj j = v"
  shows "fst (precip_slot c_satura c_w_save c2v_adj rho theta_c j (c_w, c_p)) v = c_satura v"
  using assms by (auto simp: precip_slot_def Let_def)

lemma vertex_visited_visit:
  "vertex_visited g c2v_adj v \<longleftrightarrow> (\<exists>x\<in>set (slot_visits g c2v_adj). ids c2v_adj (snd (snd x)) = v)"
proof
  assume "vertex_visited g c2v_adj v"
  then obtain s c j where "(s, c, j) \<in> set (slot_visits g c2v_adj)" "ids c2v_adj j = v"
    unfolding vertex_visited_def soil_owns_def in_slot_visits by blast
  then show "\<exists>x\<in>set (slot_visits g c2v_adj). ids c2v_adj (snd (snd x)) = v"
    by (intro bexI [of _ "(s, c, j)"]) simp_all
next
  assume "\<exists>x\<in>set (slot_visits g c2v_adj). ids c2v_adj (snd (snd x)) = v"
  then obtain s c j where "(s, c, j) \<in> set (slot_visits g c2v_adj)" "ids c2v_adj j = v"
    by force
  then show "vertex_visited g c2v_adj v"
    unfolding vertex_visited_def soil_owns_def in_slot_visits by blast
qed

lemma precip_visit_c_w_le:
  assumes "fst st v \<le> c_satura v" "c_w_save v \<le> c_satura v"
  shows "fst (precip_visit g tc c_satura c_w_save c2v_adj theta x st) v \<le> c_satura v"
  using assms by (cases x; cases st) (simp add: precip_visit_def precip_slot_c_w_le)

lemma precip_visit_c_w_eq:
  assumes "c_satura v < c_w_save v" "fst st v = c_satura v \<or> ids c2v_adj (snd (snd x)) = v"
  shows "fst (precip_visit g tc c_satura c_w_save c2v_adj theta x st) v = c_satura v"
  using assms by (cases x; cases st) (simp add: precip_visit_def precip_slot_c_w_eq)

lemma precip_soils_c_w_le:
  assumes "vertex_visited g c2v_adj v \<or> c_w v \<le> c_satura v"
  shows "fst (precip_soils g tc c_satura c_w c2v_adj theta (c_w, c_p)) v \<le> c_satura v"
proof (cases "c_w v \<le> c_satura v")
  case True
  show ?thesis
    unfolding precip_soils_visits
    by (rule fold_invariant [where Q = "\<lambda>x. True" and P = "\<lambda>st. fst st v \<le> c_satura v"])
      (simp_all add: True precip_visit_c_w_le)
next
  case False
  with assms obtain x where x: "x \<in> set (slot_visits g c2v_adj)" "ids c2v_adj (snd (snd x)) = v"
    by (auto simp: vertex_visited_visit)
  from False have lt: "c_satura v < c_w v" by simp
  have "fst (fold (precip_visit g tc c_satura c_w c2v_adj theta) (slot_visits g c2v_adj)
          (c_w, c_p)) v = c_satura v"
    by (rule fold_establish [where Q = "\<lambda>st. fst st v = c_satura v", OF x(1)])
      (simp_all add: x(2) lt precip_visit_c_w_eq)
  then show ?thesis by (simp add: precip_soils_visits)
qed

text \<open>
  C3. After the update (synchronisation included) the dissolved concentration of a
  vertex does not exceed its saturation concentration. On entry \<open>c_w\<close> is the array that
  the function saves for the selection of the branches, and \<^verbatim>\<open>conc_satura\<close> is set. The
  vertex belongs to a cell of a soil zone, as every vertex of a mesh does (or it is not
  above saturation on entry); on a distributed mesh, the values received from the other
  ranks for this vertex respect the bound, which they do when those ranks ran the same
  update with the same saturation table. The bound does not depend on the quotients by
  \<open>rho\<close> and \<open>theta_c\<close>: the value stored is \<open>c_sat\<close>, or the maximum of the former value and
  of a minimum with \<open>c_sat\<close>.
\<close>

theorem precip_saturation_clamp:
  assumes "tr_context tr = Some tc" "conc_satura tc = Some c_satura" "conc_precip tc = Some c_p"
    "l_saturation tc = Some theta" "precip_field tc = Some field_val"
    and "vertex_visited g (c2v connect) v \<or> eq_vertex_values tr v \<le> c_satura v"
    and "vtx_interfaces connect \<longrightarrow> (\<forall>x\<in>set (recv v). x \<le> c_satura v)"
  shows "\<exists>tr'. update_precipitation_vb g connect quant recv (Some tr) = Inr tr'
    \<and> eq_vertex_values tr' v \<le> c_satura v"
  using update_precipitation_vb_Some [OF assms(1-5), of g connect quant recv]
    precip_soils_c_w_le [where g = g and c2v_adj = "c2v connect" and v = v
      and c_w = "eq_vertex_values tr" and c_satura = c_satura and tc = tc and theta = theta
      and c_p = c_p, OF assms(6)] assms(7)
  by (auto simp: Let_def cs_interface_set_max_def intro: fold_max_le)

lemma ex_soil_owns: "soil_owns ex_glob ex_c2v s v \<longleftrightarrow> v = s \<or> v = s + 1"
proof -
  have "(\<exists>j\<ge>2 * s. j < 2 * (s + 1) \<and> (j + 1) div 2 = v) \<longleftrightarrow> v = s \<or> v = s + 1"
  proof
    assume "\<exists>j\<ge>2 * s. j < 2 * (s + 1) \<and> (j + 1) div 2 = v"
    then obtain j where "2 * s \<le> j" "j < 2 * (s + 1)" "(j + 1) div 2 = v" by blast
    then have "j = 2 * s \<or> j = 2 * s + 1" by arith
    with \<open>(j + 1) div 2 = v\<close> show "v = s \<or> v = s + 1" by auto
  next
    assume "v = s \<or> v = s + 1"
    then show "\<exists>j\<ge>2 * s. j < 2 * (s + 1) \<and> (j + 1) div 2 = v"
    proof
      assume "v = s"
      then show ?thesis by (intro exI [of _ "2 * s"]) simp
    next
      assume "v = s + 1"
      then show ?thesis by (intro exI [of _ "2 * s + 1"]) simp
    qed
  qed
  then show ?thesis
    by (simp add: soil_owns_def ex_cell_in_soil ex_c2v_def)
qed

lemma ex_vertex_visited: "vertex_visited ex_glob (c2v ex_connect) 1"
  unfolding vertex_visited_def
  by (intro exI [of _ 0]) (simp add: ex_soil_owns ex_connect_def, simp add: ex_glob_def)

theorem precip_saturation_clamp_witness:
  "\<exists>tr'. update_precipitation_vb ex_glob ex_connect ex_quant ex_recv (Some ex_tracer_hi) = Inr tr'
     \<and> eq_vertex_values tr' 1 \<le> 10"
proof -
  have f: "tr_context ex_tracer_hi = Some ex_tc" by (simp add: ex_tracer_hi_def ex_tracer_def)
  have i: "vtx_interfaces ex_connect \<longrightarrow> (\<forall>x\<in>set (ex_recv 1). x \<le> ex_c_sat 1)"
    by (simp add: ex_connect_def)
  from precip_saturation_clamp [where tr = ex_tracer_hi and tc = ex_tc and c_satura = ex_c_sat
      and g = ex_glob and connect = ex_connect and quant = ex_quant and recv = ex_recv and v = 1,
      OF f ex_tracer_fields(2-5) disjI1 [OF ex_vertex_visited] i]
  show ?thesis by (simp add: ex_c_sat_def)
qed





















section \<open>Fatal precondition violations\<close>

text \<open>
  C9. A call of \<^verbatim>\<open>cs_gwf_set_main_tracer_param\<close> with a null tracer, a space scheme
  other than the two vertex-based ones in \<^verbatim>\<open>_add_precipitation\<close> or in
  \<^verbatim>\<open>cs_gwf_tracer_integrate\<close>, and a call of \<^verbatim>\<open>cs_gwf_tracer_integrate\<close> with an unset
  saturation, all end in \<^verbatim>\<open>bft_error\<close> with a message that names the violation: the result
  is the fatal error, not a value.
\<close>

theorem precondition_violations_fatal:
  fixes g :: "real cs_glob"
  shows "cs_gwf_set_main_tracer_param g None soil_name wmd_v al_v at_v distrib_coef rate
           = Inl (Fatal err_empty_tracer)
       \<and> (eq_space_scheme tr = CS_SPACE_SCHEME_OTHER k \<longrightarrow>
            add_precipitation g connect quant recv fresh_precip fresh_satura (Some tr)
              = Inl (Fatal ''_add_precipitation: Invalid space scheme.''))
       \<and> (eq_space_scheme tr = CS_SPACE_SCHEME_OTHER k \<and> tr_context tr = Some tc
            \<and> l_saturation tc \<noteq> None \<longrightarrow>
            cs_gwf_tracer_integrate g connect quant others (Some tr) z
              = Inl (Fatal '' cs_gwf_tracer_integrate: Invalid space scheme''))
       \<and> (tr_context tr = Some tc \<and> l_saturation tc = None \<longrightarrow>
            cs_gwf_tracer_integrate g connect quant others (Some tr) z
              = Inl (Fatal ('' cs_gwf_tracer_integrate: '' @ [CHR 0x22] @ ''moisture_content''
                             @ [CHR 0x22] @ '' not defined'')))"
  by (auto simp: cs_gwf_set_main_tracer_param_def add_precipitation_def
      cs_gwf_tracer_integrate_def bft_error_def Let_def)

theorem precondition_violations_fatal_witness:
  "add_precipitation ex_glob ex_connect ex_quant ex_recv ex_zero ex_zero (Some ex_tracer_other)
     = Inl (Fatal ''_add_precipitation: Invalid space scheme.'')
   \<and> cs_gwf_tracer_integrate ex_glob ex_connect ex_quant [] (Some ex_tracer_other) ex_zone
     = Inl (Fatal '' cs_gwf_tracer_integrate: Invalid space scheme'')
   \<and> cs_gwf_tracer_integrate ex_glob ex_connect ex_quant [] (Some ex_tracer_dry) ex_zone
     = Inl (Fatal ('' cs_gwf_tracer_integrate: '' @ [CHR 0x22] @ ''moisture_content''
                    @ [CHR 0x22] @ '' not defined''))"
proof -
  have 1: "eq_space_scheme ex_tracer_other = CS_SPACE_SCHEME_OTHER 0"
    "tr_context ex_tracer_other = Some ex_tc" "l_saturation ex_tc \<noteq> None"
    by (simp_all add: ex_tracer_other_def ex_tracer_def ex_tc_def)
  have 2: "tr_context ex_tracer_dry = Some ex_tc_dry" "l_saturation ex_tc_dry = None"
    by (simp_all add: ex_tracer_dry_def ex_tc_dry_def)
  from precondition_violations_fatal [where tr = ex_tracer_other and k = 0 and tc = ex_tc
      and g = ex_glob and connect = ex_connect and quant = ex_quant and recv = ex_recv
      and fresh_precip = ex_zero and fresh_satura = ex_zero and others = "[]" and z = ex_zone]
    precondition_violations_fatal [where tr = ex_tracer_dry and tc = ex_tc_dry
      and g = ex_glob and connect = ex_connect and quant = ex_quant and others = "[]"
      and z = ex_zone] 1 2
  show ?thesis by simp
qed

section \<open>The saturation table built by the setup of the precipitation model\<close>

lemma fold_err_append:
  "fold_err f (xs @ ys) s = (case fold_err f xs s of Inl e \<Rightarrow> Inl e | Inr s' \<Rightarrow> fold_err f ys s')"
  by (induction xs arbitrary: s) (simp_all split: sum.splits)

lemma fold_min_Min: "fold min xs (a::real) = Min (insert a (set xs))"
  using Min.set_eq_fold [of a xs] by simp

lemma fold_slot_min:
  "fold (\<lambda>j sat. let v_id = ids c2v_adj j in sat(v_id := CS_MIN (sat v_id) c)) L sat v =
     (if v \<in> ids c2v_adj ` set L then min (sat v) (c::real) else sat v)"
  by (induction L arbitrary: sat) (auto simp: Let_def CS_MIN_real)

lemma satura_soil_0:
  "satura_soil g tc c2v_adj n 0 sat = Inr sat' \<Longrightarrow> v < n \<Longrightarrow>
     sat' v = conc_w_star tc (id_s (soil_by_id g 0))"
proof -
  have "\<And>c. fold (\<lambda>v sat. sat(v := c)) [0..<n] sat v = (if v < n then c else sat v)"
    by (induction n) auto
  then show "satura_soil g tc c2v_adj n 0 sat = Inr sat' \<Longrightarrow> v < n \<Longrightarrow>
     sat' v = conc_w_star tc (id_s (soil_by_id g 0))"
    by (auto simp: satura_soil_def Let_def)
qed

lemma satura_soil_later:
  assumes "0 < s" "elt_ids (soil_zone g s) \<noteq> None"
  shows "\<exists>sat'. satura_soil g tc c2v_adj n s sat = Inr sat'
    \<and> sat' v = (if soil_owns g c2v_adj s v
                then min (sat v) (conc_w_star tc (id_s (soil_by_id g s))) else sat v)"
proof -
  from assms(2) obtain e where e: "elt_ids (soil_zone g s) = Some e" by auto
  let ?z = "soil_zone g s"
  let ?L = "concat (map (\<lambda>i. cell_slots c2v_adj (e i)) [0..<n_elts ?z])"
  have own: "v \<in> ids c2v_adj ` set ?L \<longleftrightarrow> soil_owns g c2v_adj s v"
  proof
    assume "v \<in> ids c2v_adj ` set ?L"
    then obtain i j where ij: "i < n_elts ?z" "idx c2v_adj (e i) \<le> j"
      "j < idx c2v_adj (e i + 1)" "ids c2v_adj j = v"
      by (auto simp: cell_slots_def)
    from ij(1) have "cell_in_soil g s (e i)"
      unfolding cell_in_soil_def by (intro exI [of _ i]) (simp add: zone_cell_def e)
    with ij(2-4) show "soil_owns g c2v_adj s v"
      unfolding soil_owns_def by blast
  next
    assume "soil_owns g c2v_adj s v"
    then obtain i j where ij: "i < n_elts ?z" "idx c2v_adj (e i) \<le> j"
      "j < idx c2v_adj (e i + 1)" "ids c2v_adj j = v"
      by (auto simp: soil_owns_def cell_in_soil_def zone_cell_def e)
    have "j \<in> set ?L"
      by (rule in_concat_map [where y = i]) (use ij in \<open>simp_all add: cell_slots_def\<close>)
    with ij(4) show "v \<in> ids c2v_adj ` set ?L" by blast
  qed
  let ?step = "\<lambda>j sat. let v_id = ids c2v_adj j
      in sat(v_id := CS_MIN (sat v_id) (conc_w_star tc (id_s (soil_by_id g s))))"
  from assms(1) e have res: "satura_soil g tc c2v_adj n s sat = Inr (fold ?step ?L sat)"
    by (simp add: satura_soil_def Let_def soil_zone_def [symmetric] fold_concat_map)
  have val: "fold ?step ?L sat v = (if soil_owns g c2v_adj s v
      then min (sat v) (conc_w_star tc (id_s (soil_by_id g s))) else sat v)"
    unfolding fold_slot_min own ..
  from res val show ?thesis by blast
qed

lemma satura_soils_later:
  assumes "\<forall>s. 0 < s \<and> s < m \<longrightarrow> elt_ids (soil_zone g s) \<noteq> None"
  shows "\<exists>sat'. fold_err (satura_soil g tc c2v_adj n) [Suc 0..<m] sat = Inr sat'
    \<and> sat' v = fold min (map (\<lambda>s. conc_w_star tc (id_s (soil_by_id g s)))
                             (filter (\<lambda>s. soil_owns g c2v_adj s v) [Suc 0..<m])) (sat v)"
  using assms
proof (induction m)
  case 0
  show ?case by simp
next
  case (Suc m)
  show ?case
  proof (cases "m = 0")
    case True
    then show ?thesis by simp
  next
    case False
    then have up: "[Suc 0..<Suc m] = [Suc 0..<m] @ [m]" by simp
    from Suc.prems have "\<forall>s. 0 < s \<and> s < m \<longrightarrow> elt_ids (soil_zone g s) \<noteq> None" by simp
    from Suc.IH [OF this] obtain sat1 where
      1: "fold_err (satura_soil g tc c2v_adj n) [Suc 0..<m] sat = Inr sat1"
      and v1: "sat1 v = fold min (map (\<lambda>s. conc_w_star tc (id_s (soil_by_id g s)))
                             (filter (\<lambda>s. soil_owns g c2v_adj s v) [Suc 0..<m])) (sat v)"
      by blast
    from False Suc.prems have "0 < m" "elt_ids (soil_zone g m) \<noteq> None" by simp_all
    from satura_soil_later [OF this, of tc c2v_adj n sat1 v] obtain sat2 where
      2: "satura_soil g tc c2v_adj n m sat1 = Inr sat2"
      and v2: "sat2 v = (if soil_owns g c2v_adj m v
                then min (sat1 v) (conc_w_star tc (id_s (soil_by_id g m))) else sat1 v)"
      by blast
    have "fold_err (satura_soil g tc c2v_adj n) [Suc 0..<Suc m] sat = Inr sat2"
      unfolding up fold_err_append by (simp add: 1 2)
    moreover have "sat2 v = fold min (map (\<lambda>s. conc_w_star tc (id_s (soil_by_id g s)))
        (filter (\<lambda>s. soil_owns g c2v_adj s v) [Suc 0..<Suc m])) (sat v)"
      unfolding up by (simp add: v1 v2 min.commute)
    ultimately show ?thesis by blast
  qed
qed

text \<open>
  C10. With one of the two vertex-based schemes and at least one soil (soil \<open>s\<close> having
  the id \<open>s\<close>, and the zones of the soils after the first listing their cells, as the
  function asserts), \<^verbatim>\<open>_add_precipitation\<close> succeeds and, for every vertex \<open>v\<close> of the mesh,
  \<open>conc_satura[v]\<close> is the minimum of \<open>conc_w_star[0]\<close> and of the \<open>conc_w_star[s]\<close> of the
  soils \<open>s > 0\<close> that own a cell incident to \<open>v\<close> (and, on a distributed mesh, of the
  values received for \<open>v\<close> in the min-reduction, which are the same minimum on the other
  ranks). In particular \<open>conc_satura[v] \<le> conc_w_star[0]\<close>, whether or not a cell of soil 0
  is incident to \<open>v\<close>.
\<close>

theorem conc_satura_min:
  assumes ctx: "tr_context tr = Some tc"
    and scheme: "eq_space_scheme tr = CS_SPACE_SCHEME_CDOVB
                 \<or> eq_space_scheme tr = CS_SPACE_SCHEME_CDOVCB"
    and soils: "0 < n_soils g"
    and ids: "\<forall>s<n_soils g. id_s (soil_by_id g s) = s"
    and zones: "\<forall>s. 0 < s \<and> s < n_soils g \<longrightarrow> elt_ids (soil_zone g s) \<noteq> None"
    and v: "v < n_vertices quant"
  shows "\<exists>tr' tc' sat.
      add_precipitation g connect quant recv fresh_precip fresh_satura (Some tr) = Inr tr'
    \<and> tr_context tr' = Some tc' \<and> conc_satura tc' = Some sat
    \<and> sat v = Min (insert (conc_w_star tc 0)
                 ({conc_w_star tc s | s. 0 < s \<and> s < n_soils g \<and> soil_owns g (c2v connect) s v}
                  \<union> (if vtx_interfaces connect then set (recv v) else {})))
    \<and> sat v \<le> conc_w_star tc 0"
proof -
  obtain a_size where a: "(case eq_space_scheme tr of
        CS_SPACE_SCHEME_CDOVB \<Rightarrow> Inr (idx (c2v connect) (n_cells quant))
      | CS_SPACE_SCHEME_CDOVCB \<Rightarrow> Inr (idx (c2v connect) (n_cells quant) + n_cells quant)
      | CS_SPACE_SCHEME_OTHER k \<Rightarrow> bft_error ''_add_precipitation: Invalid space scheme.'')
      = (Inr a_size :: error + nat)"
    using scheme by auto
  define tc1 where "tc1 = tc\<lparr>conc_precip := Some (\<lambda>j. if j < a_size then 0 else fresh_precip j)\<rparr>"
  let ?c = "\<lambda>s. conc_w_star tc1 (id_s (soil_by_id g s))"
  let ?n = "n_vertices quant"
  let ?own = "\<lambda>s. soil_owns g (c2v connect) s v"
  have c: "\<And>s. s < n_soils g \<Longrightarrow> ?c s = conc_w_star tc s"
    using ids by (simp add: tc1_def)
  from soils have up: "[0..<n_soils g] = 0 # [Suc 0..<n_soils g]"
    by (simp add: upt_conv_Cons)
  obtain sat0 where 0: "satura_soil g tc1 (c2v connect) ?n 0 fresh_satura = Inr sat0"
    by (simp add: satura_soil_def Let_def)
  from satura_soil_0 [OF 0 v] soils have v0: "sat0 v = conc_w_star tc 0"
    by (simp add: c)
  from satura_soils_later [OF zones, of tc1 "c2v connect" ?n sat0 v] obtain sat1 where
    1: "fold_err (satura_soil g tc1 (c2v connect) ?n) [Suc 0..<n_soils g] sat0 = Inr sat1"
    and v1: "sat1 v = fold min (map ?c (filter ?own [Suc 0..<n_soils g])) (sat0 v)"
    by blast
  have loop: "fold_err (satura_soil g tc1 (c2v connect) ?n) [0..<n_soils g] fresh_satura = Inr sat1"
    unfolding up by (simp add: 0 1)
  have set: "set (map ?c (filter ?own [Suc 0..<n_soils g]))
      = {conc_w_star tc s | s. 0 < s \<and> s < n_soils g \<and> ?own s}"
    using c by force
  have m1: "sat1 v = Min (insert (conc_w_star tc 0)
      {conc_w_star tc s | s. 0 < s \<and> s < n_soils g \<and> ?own s})"
    unfolding v1 v0 fold_min_Min set ..
  define sat where "sat = (if vtx_interfaces connect
      then cs_interface_set_min recv ?n sat1 else sat1)"
  have res: "add_precipitation g connect quant recv fresh_precip fresh_satura (Some tr)
      = Inr (tr\<lparr>tr_context := Some (tc1\<lparr>conc_satura := Some sat\<rparr>)\<rparr>)"
    using scheme
    by (auto simp: add_precipitation_def Let_def ctx a tc1_def [symmetric] loop sat_def)
  have m: "sat v = Min (insert (conc_w_star tc 0)
      ({conc_w_star tc s | s. 0 < s \<and> s < n_soils g \<and> ?own s}
       \<union> (if vtx_interfaces connect then set (recv v) else {})))"
  proof (cases "vtx_interfaces connect")
    case False
    then show ?thesis by (simp add: sat_def m1)
  next
    case True
    then have "sat v = fold min (map ?c (filter ?own [Suc 0..<n_soils g]) @ recv v) (sat0 v)"
      using v by (simp add: sat_def cs_interface_set_min_def v1)
    also have "\<dots> = Min (insert (conc_w_star tc 0)
        (set (map ?c (filter ?own [Suc 0..<n_soils g])) \<union> set (recv v)))"
      unfolding fold_min_Min v0 by simp
    finally show ?thesis unfolding set using True by simp
  qed
  have fin: "finite ({conc_w_star tc s | s. 0 < s \<and> s < n_soils g \<and> ?own s}
       \<union> (if vtx_interfaces connect then set (recv v) else {}))"
    by simp
  have "sat v \<le> conc_w_star tc 0"
    unfolding m by (rule Min_le) (use fin in simp_all)
  with res m show ?thesis by simp
qed

theorem conc_satura_min_witness:
  "\<exists>tr' tc' sat.
      add_precipitation ex_glob ex_connect ex_quant ex_recv ex_zero ex_zero (Some ex_tracer) = Inr tr'
    \<and> tr_context tr' = Some tc' \<and> conc_satura tc' = Some sat \<and> sat 2 = 8
    \<and> sat 2 \<le> conc_w_star ex_tc 0"
proof -
  have h: "tr_context ex_tracer = Some ex_tc"
    "eq_space_scheme ex_tracer = CS_SPACE_SCHEME_CDOVB
       \<or> eq_space_scheme ex_tracer = CS_SPACE_SCHEME_CDOVCB"
    "0 < n_soils ex_glob"
    "\<forall>s<n_soils ex_glob. id_s (soil_by_id ex_glob s) = s"
    "\<forall>s. 0 < s \<and> s < n_soils ex_glob \<longrightarrow> elt_ids (soil_zone ex_glob s) \<noteq> None"
    "2 < n_vertices ex_quant"
    by (simp_all add: ex_tracer_def ex_glob_def ex_quant_def soil_zone_def)
  have n: "n_soils ex_glob = 2" by (simp add: ex_glob_def)
  have "\<And>s. 0 < s \<and> s < n_soils ex_glob \<and> soil_owns ex_glob ex_c2v s 2 \<longleftrightarrow> s = 1"
    unfolding ex_soil_owns n by auto
  then have "{conc_w_star ex_tc s | s. 0 < s \<and> s < n_soils ex_glob \<and> soil_owns ex_glob ex_c2v s 2}
      = {conc_w_star ex_tc 1}"
    by simp
  then have m: "Min (insert (conc_w_star ex_tc 0)
      ({conc_w_star ex_tc s | s. 0 < s \<and> s < n_soils ex_glob
          \<and> soil_owns ex_glob (c2v ex_connect) s 2}
       \<union> (if vtx_interfaces ex_connect then set (ex_recv 2) else {}))) = 8"
    by (simp add: ex_connect_def ex_tc_def)
  from conc_satura_min [OF h, of ex_connect ex_recv ex_zero ex_zero] show ?thesis
    unfolding m .
qed

section \<open>The precipitation update on doubles\<close>

text \<open>
  The exponent and the rounding are those of the format: \<open>2^e \<le> |x| < 2^(e+1)\<close> for the
  exponent \<open>e\<close> of \<open>x\<close>, and the rounded value is within half a unit of the last place.
\<close>

lemma bitlen_pos: "0 < n \<Longrightarrow> 0 < bitlen n"
  using bitlen_nonneg [of n] bitlen_eq_zero_iff [of n] by linarith

lemma bitlen_powi_bounds:
  assumes "0 < n"
  shows "2 powi (bitlen n - 1) \<le> (of_int n :: real)" and "(of_int n :: real) < 2 powi bitlen n"
proof -
  from assms bitlen_bounds [of n]
  have b: "2 ^ nat (bitlen n - 1) \<le> n" "n < 2 ^ nat (bitlen n)" by simp_all
  from assms have p: "0 < bitlen n" by (rule bitlen_pos)
  have "(2::real) powi (bitlen n - 1) = 2 ^ nat (bitlen n - 1)"
    using p by (simp add: power_int_def)
  also have "\<dots> = of_int (2 ^ nat (bitlen n - 1))" by simp
  also have "\<dots> \<le> of_int n" using b(1) by (simp only: of_int_le_iff)
  finally show "2 powi (bitlen n - 1) \<le> (of_int n :: real)" .
  have "(of_int n :: real) < of_int (2 ^ nat (bitlen n))" using b(2) by (simp only: of_int_less_iff)
  also have "\<dots> = 2 powi bitlen n" using p by (simp add: power_int_def)
  finally show "(of_int n :: real) < 2 powi bitlen n" .
qed

lemma double_exponent_bounds:
  assumes "x \<noteq> 0"
  shows "2 powi double_exponent x \<le> \<bar>x\<bar>" and "\<bar>x\<bar> < 2 powi (double_exponent x + 1)"
proof -
  have "2 powi double_exponent x \<le> \<bar>x\<bar> \<and> \<bar>x\<bar> < 2 powi (double_exponent x + 1)"
  proof (cases "1 \<le> \<bar>x\<bar>")
    case True
    define n where "n = \<lfloor>\<bar>x\<bar>\<rfloor>"
    from True have n: "0 < n" by (simp add: n_def)
    have e: "double_exponent x = bitlen n - 1" using True by (simp add: double_exponent_def n_def)
    have "2 powi (bitlen n - 1) \<le> (of_int n :: real)" by (rule bitlen_powi_bounds [OF n])
    also have "\<dots> \<le> \<bar>x\<bar>" by (simp add: n_def)
    finally have 1: "2 powi double_exponent x \<le> \<bar>x\<bar>" by (simp add: e)
    have "of_int (n + 1) \<le> (2::real) powi bitlen n"
    proof -
      from n bitlen_bounds [of n] have "n + 1 \<le> 2 ^ nat (bitlen n)" by simp
      then have "(of_int (n + 1) :: real) \<le> of_int (2 ^ nat (bitlen n))"
        by (simp only: of_int_le_iff)
      moreover from n have "0 < bitlen n" by (rule bitlen_pos)
      ultimately show ?thesis by (simp add: power_int_def)
    qed
    moreover have "\<bar>x\<bar> < of_int (n + 1)" unfolding n_def by linarith
    ultimately have "\<bar>x\<bar> < 2 powi (double_exponent x + 1)" by (simp add: e)
    with 1 show ?thesis ..
  next
    case False
    define y where "y = 1 / \<bar>x\<bar>"
    define m where "m = \<lceil>y\<rceil> - 1"
    from False assms have y: "1 < y" by (simp add: y_def)
    then have m: "0 < m" unfolding m_def by linarith
    have e: "double_exponent x = - bitlen m" using False by (simp add: double_exponent_def m_def y_def)
    have x: "\<bar>x\<bar> = 1 / y" "0 < y" using assms by (simp_all add: y_def)
    have "(of_int m :: real) < y" unfolding m_def by linarith
    with bitlen_powi_bounds(1) [OF m] have "2 powi (bitlen m - 1) < y" by linarith
    then have "1 / y < 1 / 2 powi (bitlen m - 1)"
      by (intro divide_strict_left_mono) (simp_all add: x)
    also have "\<dots> = 2 powi (- bitlen m + 1)"
      using power_int_minus [of "2::real" "bitlen m - 1"] by (simp add: divide_inverse)
    finally have 2: "\<bar>x\<bar> < 2 powi (double_exponent x + 1)" by (simp add: e x)
    have "y \<le> of_int (m + 1)" unfolding m_def by simp
    moreover have "of_int (m + 1) \<le> (2::real) powi bitlen m"
    proof -
      from m bitlen_bounds [of m] have "m + 1 \<le> 2 ^ nat (bitlen m)" by simp
      then have "(of_int (m + 1) :: real) \<le> of_int (2 ^ nat (bitlen m))"
        by (simp only: of_int_le_iff)
      moreover from m have "0 < bitlen m" by (rule bitlen_pos)
      ultimately show ?thesis by (simp add: power_int_def)
    qed
    ultimately have "y \<le> 2 powi bitlen m" by linarith
    then have "1 / 2 powi bitlen m \<le> 1 / y"
      by (intro divide_left_mono) (simp_all add: x)
    then have "2 powi double_exponent x \<le> \<bar>x\<bar>"
      by (simp add: e x power_int_minus field_simps)
    with 2 show ?thesis by simp
  qed
  then show "2 powi double_exponent x \<le> \<bar>x\<bar>" and "\<bar>x\<bar> < 2 powi (double_exponent x + 1)"
    by simp_all
qed

lemma round_half_even_error: "\<bar>of_int (round_half_even y) - y\<bar> \<le> 1 / 2"
  unfolding round_half_even_def Let_def by (simp; linarith)

lemma double_round_error:
  "\<bar>double_round x - x\<bar> \<le> 2 powi (double_exponent x - 53)"
proof (cases "x = 0")
  case True
  then show ?thesis by (simp add: double_round_def)
next
  case False
  define u :: real where "u = 2 powi (double_exponent x - 52)"
  have u: "0 < u" by (simp add: u_def)
  have "double_round x - x = (of_int (round_half_even (x / u)) - x / u) * u"
    using False u by (simp add: double_round_def u_def [symmetric] Let_def left_diff_distrib)
  then have "\<bar>double_round x - x\<bar> = \<bar>of_int (round_half_even (x / u)) - x / u\<bar> * u"
    using u by (simp only: abs_mult abs_of_pos)
  also have "\<dots> \<le> 1 / 2 * u"
    using round_half_even_error [of "x / u"] u by (intro mult_right_mono) simp_all
  also have "\<dots> = 2 powi (double_exponent x - 53)"
    by (simp add: u_def power_int_diff)
  finally show ?thesis .
qed

text \<open>With the identity for rounding, the update is the update of exact arithmetic.\<close>

lemma precip_slot_fl_exact: "precip_slot_fl (\<lambda>x. x) = precip_slot"
  by (intro ext) (simp add: precip_slot_fl_def precip_slot_def)

lemma precip_cell_fl_exact: "precip_cell_fl (\<lambda>x. x) = precip_cell"
  by (intro ext) (simp add: precip_cell_fl_def precip_cell_def precip_slot_fl_exact)

lemma precip_soil_fl_exact: "precip_soil_fl (\<lambda>x. x) = precip_soil"
  by (intro ext) (simp add: precip_soil_fl_def precip_soil_def precip_cell_fl_exact)

lemma precip_soils_fl_exact: "precip_soils_fl (\<lambda>x. x) = precip_soils"
  by (intro ext) (simp add: precip_soils_fl_def precip_soils_def precip_soil_fl_exact)

lemma precip_field_cell_fl_exact: "precip_field_cell_fl (\<lambda>x. x) = precip_field_cell"
  by (intro ext) (simp add: precip_field_cell_fl_def precip_field_cell_def)

lemma update_precipitation_vb_fl_exact:
  "update_precipitation_vb_fl (\<lambda>x. x) = update_precipitation_vb"
  unfolding update_precipitation_vb_fl_def update_precipitation_vb_def precip_soils_fl_exact
    precip_field_cell_fl_exact ..

text \<open>
  The values of the example are doubles, and on the two-cell mesh the update visits the
  slots 0 to 3; with the precipitate in the slot 1 only, the slot 1 after the update is
  what its own visit leaves.
\<close>

lemma ex_double_round:
  "double_round 1 = 1"
  "double_round 10 = 10"
  "double_round (7 / 8) = 7 / 8"
  "double_round (3 / 10) = 5404319552844595 / 18014398509481984"
  "double_round (5404319552844595 / 18014398509481984) = 5404319552844595 / 18014398509481984"
  by code_simp+

lemma ex_slot_fl:
  "snd (precip_slot_fl double_round ex_c_sat ex_c_w ex_c2v 1 (5404319552844595 / 18014398509481984) 1
         (ex_c_w, ex_c_p_fl)) 1 = - 1 / 2 ^ 53"
  by code_simp

lemma ex_slot_exact:
  "snd (precip_slot_fl (\<lambda>x. x) ex_c_sat ex_c_w ex_c2v 1 (5404319552844595 / 18014398509481984) 1
         (ex_c_w, ex_c_p_fl)) 1 = 0"
  by (simp add: precip_slot_fl_def ex_c_sat_def ex_c_w_def ex_c2v_def ex_c_p_fl_def CS_MIN_def
      Let_def)

lemma precip_slot_fl_other_slot:
  "j' \<noteq> j \<Longrightarrow>
     snd (precip_slot_fl rnd c_satura c_w_save c2v_adj rho theta_c j st) j' = snd st j'"
  by (cases st) (simp add: precip_slot_fl_def Let_def)

lemma precip_slot_fl_idle:
  "c_w_save (ids c2v_adj j) \<le> c_satura (ids c2v_adj j) \<Longrightarrow> snd st j \<le> 0 \<Longrightarrow>
     precip_slot_fl rnd c_satura c_w_save c2v_adj rho theta_c j st = st"
  by (cases st) (simp add: precip_slot_fl_def Let_def)

lemma ex_precip_soils_fl:
  "snd (precip_soils_fl rnd ex_glob ex_tc_fl ex_c_sat ex_c_w ex_c2v ex_theta_fl
     (ex_c_w, ex_c_p_fl)) 1
   = snd (precip_slot_fl rnd ex_c_sat ex_c_w ex_c2v 1 (5404319552844595 / 18014398509481984) 1
       (ex_c_w, ex_c_p_fl)) 1"
proof -
  let ?f = "precip_slot_fl rnd ex_c_sat ex_c_w ex_c2v 1
      (5404319552844595 / 18014398509481984)"
  have soil: "n_soils ex_glob = 2" "\<And>s. id_s (soil_by_id ex_glob s) = s"
    "\<And>s. volume_zone_by_id ex_glob (zone_id (soil_by_id ex_glob s))
        = \<lparr> n_elts = 1, elt_ids = Some (\<lambda>i. s) \<rparr>"
    by (simp_all add: ex_glob_def)
  have run: "precip_soils_fl rnd ex_glob ex_tc_fl ex_c_sat ex_c_w ex_c2v ex_theta_fl
      (ex_c_w, ex_c_p_fl) = ?f 3 (?f 2 (?f 1 (?f 0 (ex_c_w, ex_c_p_fl))))"
    by (simp add: precip_soils_fl_def precip_soil_fl_def precip_cell_fl_def soil zone_cell_def
        cell_slots_def ex_c2v_def ex_tc_fl_def ex_theta_fl_def upt_rec Let_def)
  have idle: "?f 0 (ex_c_w, ex_c_p_fl) = (ex_c_w, ex_c_p_fl)"
    by (rule precip_slot_fl_idle) (simp_all add: ex_c_w_def ex_c_sat_def ex_c_p_fl_def)
  have later: "snd (?f 3 (?f 2 st)) 1 = snd st 1" for st
    by (simp add: precip_slot_fl_other_slot)
  show ?thesis
    unfolding run idle later ..
qed

lemma ex_tracer_fl_fields:
  "tr_context ex_tracer_fl = Some ex_tc_fl"
  "conc_satura ex_tc_fl = Some ex_c_sat"
  "conc_precip ex_tc_fl = Some ex_c_p_fl"
  "l_saturation ex_tc_fl = Some ex_theta_fl"
  "precip_field ex_tc_fl = Some ex_zero"
  "eq_vertex_values ex_tracer_fl = ex_c_w"
  by (simp_all add: ex_tracer_fl_def ex_tracer_def ex_tc_fl_def ex_tc_def)

lemma ex_update_fl:
  "conc_precip_after (update_precipitation_vb_fl rnd ex_glob ex_connect ex_quant ex_recv
      (Some ex_tracer_fl)) 1
   = Some (snd (precip_slot_fl rnd ex_c_sat ex_c_w ex_c2v 1
       (5404319552844595 / 18014398509481984) 1 (ex_c_w, ex_c_p_fl)) 1)"
  using ex_precip_soils_fl [of rnd]
  by (simp add: update_precipitation_vb_fl_def ex_tracer_fl_fields conc_precip_after_def
      tracer_c_p_def split_def Let_def ex_connect_def)

lemma ex_fl_medium_positive: "medium_positive ex_glob ex_tc_fl ex_theta_fl"
  by (simp add: medium_positive_def ex_tc_fl_def ex_theta_fl_def)

text \<open>
  C6. The claim holds in exact arithmetic and fails on doubles. On the two-cell mesh,
  with the saturation \<open>0.3\<close> (the double nearest to it), the bulk density \<open>1\<close>, the dissolved
  concentration \<open>0\<close>, the saturation concentration \<open>10\<close> and the precipitate \<open>0.875\<close> in the
  slot 1, every value is a double, the precipitate is non-negative in every slot and the
  bulk density and the saturation are positive everywhere. The dissolution branch
  computes \<open>c_w_max = 0 + (1 * (1/0.3)) * 0.875\<close>, rounded to \<open>2.916666666666667\<close>, then
  subtracts \<open>(0.3 * 1) * (c_w_max - 0)\<close>, rounded to \<open>0.875 + 2^-53\<close>, from the slot: the
  update returns with \<open>c_p[1] = - 2^-53\<close>. In exact arithmetic it returns with \<open>c_p[1] = 0\<close>.
\<close>

theorem precip_negative_on_doubles:
  "tracer_c_p ex_tracer_fl = Some ex_c_p_fl
   \<and> (\<forall>j. 0 \<le> ex_c_p_fl j) \<and> (\<forall>s. 0 < rho_bulk ex_tc_fl s) \<and> (\<forall>c. 0 < ex_theta_fl c)
   \<and> double_round (ex_theta_fl 0) = ex_theta_fl 0
   \<and> double_round (rho_bulk ex_tc_fl 0) = rho_bulk ex_tc_fl 0
   \<and> double_round (ex_c_p_fl 1) = ex_c_p_fl 1
   \<and> double_round (ex_c_sat 1) = ex_c_sat 1
   \<and> double_round (ex_c_w 1) = ex_c_w 1
   \<and> conc_precip_after (update_precipitation_vb_fl double_round ex_glob ex_connect ex_quant
         ex_recv (Some ex_tracer_fl)) 1 = Some (- 1 / 2 ^ 53)
   \<and> conc_precip_after (update_precipitation_vb ex_glob ex_connect ex_quant
         ex_recv (Some ex_tracer_fl)) 1 = Some 0"
proof -
  have in_p: "tracer_c_p ex_tracer_fl = Some ex_c_p_fl"
    by (simp add: tracer_c_p_def ex_tracer_fl_fields)
  have pre: "(\<forall>j. 0 \<le> ex_c_p_fl j) \<and> (\<forall>s. 0 < rho_bulk ex_tc_fl s) \<and> (\<forall>c. 0 < ex_theta_fl c)"
    by (simp add: ex_c_p_fl_def ex_tc_fl_def ex_theta_fl_def)
  have dbl: "double_round (ex_theta_fl 0) = ex_theta_fl 0"
    "double_round (rho_bulk ex_tc_fl 0) = rho_bulk ex_tc_fl 0"
    "double_round (ex_c_p_fl 1) = ex_c_p_fl 1"
    "double_round (ex_c_sat 1) = ex_c_sat 1"
    "double_round (ex_c_w 1) = ex_c_w 1"
    by (simp_all add: ex_theta_fl_def ex_tc_fl_def ex_c_p_fl_def ex_c_sat_def ex_c_w_def
        ex_double_round, simp add: double_round_def)
  have fl: "conc_precip_after (update_precipitation_vb_fl double_round ex_glob ex_connect ex_quant
         ex_recv (Some ex_tracer_fl)) 1 = Some (- 1 / 2 ^ 53)"
    unfolding ex_update_fl ex_slot_fl ..
  have exact: "conc_precip_after (update_precipitation_vb ex_glob ex_connect ex_quant
         ex_recv (Some ex_tracer_fl)) 1 = Some 0"
    unfolding update_precipitation_vb_fl_exact [symmetric] ex_update_fl ex_slot_exact ..
  from in_p pre dbl fl exact show ?thesis by (intro conjI) simp_all
qed

end
